theory Spec2Isabelle
  imports Complex_Main "HOL-Library.AList"
begin

section \<open>The aptos library's HexString\<close>

text \<open>
  \<open>HexString\<close> comes from the aptos SDK. Its constructor keeps a string that starts with
  \<open>0x\<close> and prefixes any other string with \<open>0x\<close>; \<open>hex()\<close> returns the stored string,
  \<open>noPrefix()\<close> drops the first two characters and \<open>toShortString()\<close> strips the leading
  zeros after the prefix.
\<close>

datatype HexString = HexString (hex: string)

definition startsWith :: "string \<Rightarrow> string \<Rightarrow> bool" where
  "startsWith s p = (take (length p) s = p)"

definition new_HexString :: "string \<Rightarrow> HexString" where
  "new_HexString s = (if startsWith s ''0x'' then HexString s else HexString (''0x'' @ s))"

definition noPrefix :: "HexString \<Rightarrow> string" where
  "noPrefix h = drop 2 (hex h)"

definition toShortString :: "HexString \<Rightarrow> string" where
  "toShortString h =
     (if startsWith (hex h) ''0x''
      then ''0x'' @ dropWhile (\<lambda>c. c = CHR ''0'') (drop 2 (hex h))
      else ''0x'' @ hex h)"

definition hexDigit :: "char \<Rightarrow> nat option" where
  "hexDigit c =
     (let n = of_char c :: nat in
      if 48 \<le> n \<and> n \<le> 57 then Some (n - 48)
      else if 97 \<le> n \<and> n \<le> 102 then Some (n - 87)
      else if 65 \<le> n \<and> n \<le> 70 then Some (n - 55)
      else None)"

text \<open>
  A string of an even number of hexadecimal digits, and the bytes it writes: one byte
  per pair of digits, sixteen times the first digit plus the second.
\<close>

definition wellFormedHex :: "string \<Rightarrow> bool" where
  "wellFormedHex s = (even (length s) \<and> (\<forall>c\<in>set s. hexDigit c \<noteq> None))"

fun hexPairsToBytes :: "string \<Rightarrow> nat list" where
  "hexPairsToBytes (a # b # rest) =
     (case hexDigit a of
        None \<Rightarrow> []
      | Some h \<Rightarrow> (case hexDigit b of
                    None \<Rightarrow> []
                  | Some l \<Rightarrow> (16 * h + l) # hexPairsToBytes rest))"
| "hexPairsToBytes _ = []"

section \<open>Type tags\<close>

text \<open>
  The decimal string of a natural number, as JavaScript writes a number in a template
  string and the property keys of an array.
\<close>

function decimalString :: "nat \<Rightarrow> string" where
  "decimalString n =
     (if n < 10 then [char_of (48 + n)]
      else decimalString (n div 10) @ [char_of (48 + n mod 10)])"
  by pat_completeness auto
termination
  by (relation "measure id") auto

declare decimalString.simps [simp del]

definition indexKey :: "nat \<Rightarrow> string" where
  "indexKey n = decimalString n"

datatype AtomicTypeTag = Bool | U8 | U64 | U128 | Address

datatype TypeTag =
    Atomic AtomicTypeTag
  | VectorTag TypeTag
  | StructTag HexString string string "TypeTag list"
  | TypeParamIdx nat

fun intercalate :: "string \<Rightarrow> string list \<Rightarrow> string" where
  "intercalate sep [] = []"
| "intercalate sep [x] = x"
| "intercalate sep (x # y # ys) = x @ sep @ intercalate sep (y # ys)"

definition atomicName :: "AtomicTypeTag \<Rightarrow> string" where
  "atomicName a =
     (case a of Bool \<Rightarrow> ''bool'' | U8 \<Rightarrow> ''u8'' | U64 \<Rightarrow> ''u64''
      | U128 \<Rightarrow> ''u128'' | Address \<Rightarrow> ''address'')"

text \<open>
  Modelled from the spec: \<open>getTypeTagParamlessName\<close> lives in typeTag.ts, which is not
  among the sources. The spec gives the paramless name as the literal token for an atomic
  type, \<open>vector\<close> for any vector and \<open>address::module::Name\<close> for a struct, whatever its
  generic arguments. The rendering of an unresolved type parameter is not described;
  it is written here as \<open>$tv\<close> followed by the index.
\<close>

fun getTypeTagParamlessName :: "TypeTag \<Rightarrow> string" where
  "getTypeTagParamlessName (Atomic a) = atomicName a"
| "getTypeTagParamlessName (VectorTag e) = ''vector''"
| "getTypeTagParamlessName (StructTag a m n ps) = hex a @ ''::'' @ m @ ''::'' @ n"
| "getTypeTagParamlessName (TypeParamIdx i) = ''$tv'' @ indexKey i"

text \<open>
  Modelled from the spec: \<open>getTypeTagFullname\<close> lives in typeTag.ts, which is not among
  the sources. The spec gives the full name as the paramless name followed by the generic
  arguments, rendered recursively between angle brackets.
\<close>

fun getTypeTagFullname :: "TypeTag \<Rightarrow> string" where
  "getTypeTagFullname (Atomic a) = atomicName a"
| "getTypeTagFullname (VectorTag e) = ''vector<'' @ getTypeTagFullname e @ ''>''"
| "getTypeTagFullname (StructTag a m n ps) =
     (if ps = [] then hex a @ ''::'' @ m @ ''::'' @ n
      else hex a @ ''::'' @ m @ ''::'' @ n @ ''<''
           @ intercalate '', '' (map getTypeTagFullname ps) @ ''>'')"
| "getTypeTagFullname (TypeParamIdx i) = ''$tv'' @ indexKey i"

section \<open>Raw values, decoded values, errors\<close>

text \<open>
  A raw value is what the network client hands over, a parsed JSON value (numbers are
  the finite numbers JSON can write, kept as rationals), or what reading a property of
  one can reach besides: a function that an object or an array inherits from its
  prototype, named by the property, and the two prototype objects themselves, which
  \<open>__proto__\<close> gives.
\<close>

datatype json =
    JNull
  | JBool bool
  | JNum rat
  | JStr string
  | JArr "json list"
  | JObj "(string \<times> json) list"
  | JFunction string
  | JObjectPrototype
  | JArrayPrototype

text \<open>
  JavaScript's \<open>typeof\<close>: it answers \<open>object\<close> for \<open>null\<close>, for arrays and for the
  prototype objects too.
\<close>

fun typeof :: "json \<Rightarrow> string" where
  "typeof JNull = ''object''"
| "typeof (JBool b) = ''boolean''"
| "typeof (JNum n) = ''number''"
| "typeof (JStr s) = ''string''"
| "typeof (JArr xs) = ''object''"
| "typeof (JObj kvs) = ''object''"
| "typeof (JFunction k) = ''function''"
| "typeof JObjectPrototype = ''object''"
| "typeof JArrayPrototype = ''object''"

record TypeParamDeclType =
  paramName :: string
  isPhantom :: bool

record FieldDeclType =
  fieldName :: string
  typeTag :: TypeTag

text \<open>
  A struct schema. The generated classes carry the struct's name twice: as the class
  name (\<open>name\<close>) and as the static member \<open>structName\<close>.
\<close>

record StructInfoType =
  moduleAddress :: HexString
  moduleName :: string
  name :: string
  structName :: string
  typeParameters :: "TypeParamDeclType list"
  structFields :: "FieldDeclType list"

text \<open>
  Decoded values. \<open>RawValue d\<close> is the raw value \<open>d\<close> handed back as it came;
  \<open>StructObject s proto t\<close> is the object that \<open>new s(proto, t)\<close> builds, the construction
  function being part of the schema and left uninterpreted.
\<close>

datatype "value" =
    RawValue json
  | NumberValue rat
  | BoolValue bool
  | BigInteger int
  | HexStringValue HexString
  | ArrayValue "value list"
  | ProtoObject "(string \<times> value) list"
  | StructObject StructInfoType "value" TypeTag

datatype error =
    ExpectsStructTag
  | ModuleAddressMismatch
  | ModuleNameMismatch
  | StructNameMismatch
  | ExpectsObject string
  | TypeError
  | MissingField string
  | BadParamIdx
  | NoFieldParser string
  | CannotParseType string
  | UnexpectedDataType string
  | U8OutOfRange
  | U8NotInteger
  | VectorU8NoPrefix
  | NoElementParser string
  | NoParserRegistered string
  | AsciiUnsupported string
  | TypeParamCountMismatch nat nat
  | ParseTypeTagError string
  | InvalidInteger string
  | NetworkError string

section \<open>The parser registry and the built-in parsers\<close>

text \<open>
  A \<open>ParserFunc\<close> is one of the functions the registry can hold: a built-in parser or the
  static parser the generator emits for a struct, which calls \<open>parseStructProto\<close> with the
  struct's schema and wraps the result with \<open>new\<close>.
\<close>

datatype ParserFunc =
    Fn_BoolParser
  | Fn_U8Parser
  | Fn_U64Parser
  | Fn_U128Parser
  | Fn_AddressParser
  | Fn_VectorParser
  | Fn_AsciiParser
  | Fn_StructParser StructInfoType

record AptosParserRepo =
  paramlessNameToParser :: "string \<rightharpoonup> ParserFunc"

text \<open>
  What the code takes from outside: \<open>parseTypeTagOrThrow\<close> of typeTag.ts, which is not
  among the sources; \<open>bigInt\<close> of the big-integer library; the bytes that
  \<open>HexString.toUint8Array\<close> gives for a string that is not an even number of hexadecimal
  digits, which depend on the Buffer implementation underneath; and the names of the
  members of \<open>Array.prototype\<close>, which depend on the version of the JavaScript engine.
\<close>

record externals =
  parseTypeTagOrThrow :: "string \<Rightarrow> error + TypeTag"
  bigInt :: "string \<Rightarrow> error + int"
  bytesOfMalformedHex :: "string \<Rightarrow> nat list"
  arrayPrototypeNames :: "string list"

definition toUint8Array :: "externals \<Rightarrow> HexString \<Rightarrow> nat list" where
  "toUint8Array ext h =
     (if wellFormedHex (noPrefix h) then hexPairsToBytes (noPrefix h)
      else bytesOfMalformedHex ext (noPrefix h))"

text \<open>
  Property access on a raw value. \<open>getProperty ext d k\<close> is \<open>Some v\<close> when \<open>k in d\<close>
  holds and \<open>d[k]\<close> is \<open>v\<close>. An object has its own keys and inherits the members of
  \<open>Object.prototype\<close>; an array has its indices and \<open>length\<close> and inherits the members of
  \<open>Array.prototype\<close> and of \<open>Object.prototype\<close>. An inherited member is a function, but
  \<open>__proto__\<close>, which gives the prototype (\<open>null\<close> for \<open>Object.prototype\<close>). On \<open>null\<close>
  and on a boolean, a number or a string the \<open>in\<close> operator raises a TypeError, which
  \<open>hasPropertyRaises\<close> records. The field loop of \<open>parseStructProto\<close>, the one place that
  reads properties, is reached by values whose \<open>typeof\<close> is \<open>object\<close> only.
\<close>

definition objectPrototypeNames :: "string list" where
  "objectPrototypeNames =
     [''constructor'', ''hasOwnProperty'', ''isPrototypeOf'', ''propertyIsEnumerable'',
      ''toLocaleString'', ''toString'', ''valueOf'', ''__defineGetter__'',
      ''__defineSetter__'', ''__lookupGetter__'', ''__lookupSetter__'']"

definition functionMember :: "string list \<Rightarrow> string \<Rightarrow> json option" where
  "functionMember names k = (if k \<in> set names then Some (JFunction k) else None)"

fun findIndexKey :: "string \<Rightarrow> json list \<Rightarrow> nat \<Rightarrow> json option" where
  "findIndexKey k [] i = None"
| "findIndexKey k (x # xs) i = (if k = indexKey i then Some x else findIndexKey k xs (Suc i))"

fun getProperty :: "externals \<Rightarrow> json \<Rightarrow> string \<Rightarrow> json option" where
  "getProperty ext (JObj kvs) k =
     (case map_of kvs k of
        Some v \<Rightarrow> Some v
      | None \<Rightarrow>
          (if k = ''__proto__'' then Some JObjectPrototype
           else functionMember objectPrototypeNames k))"
| "getProperty ext (JArr xs) k =
     (if k = ''length'' then Some (JNum (of_nat (length xs)))
      else case findIndexKey k xs 0 of
        Some v \<Rightarrow> Some v
      | None \<Rightarrow>
          (if k = ''__proto__'' then Some JArrayPrototype
           else functionMember (arrayPrototypeNames ext @ objectPrototypeNames) k))"
| "getProperty ext JArrayPrototype k =
     (if k = ''length'' then Some (JNum 0)
      else if k = ''__proto__'' then Some JObjectPrototype
      else functionMember (arrayPrototypeNames ext @ objectPrototypeNames) k)"
| "getProperty ext JObjectPrototype k =
     (if k = ''__proto__'' then Some JNull
      else functionMember objectPrototypeNames k)"
| "getProperty ext d k = None"

definition hasPropertyRaises :: "json \<Rightarrow> bool" where
  "hasPropertyRaises d =
     (case d of
        JNull \<Rightarrow> True
      | JBool b \<Rightarrow> True
      | JNum n \<Rightarrow> True
      | JStr s \<Rightarrow> True
      | _ \<Rightarrow> False)"

text \<open>
  The measure that property access decreases: a member is smaller than the value that
  holds or inherits it.
\<close>

definition rank :: "json \<Rightarrow> nat" where
  "rank d =
     (case d of
        JArr xs \<Rightarrow> 3
      | JObj kvs \<Rightarrow> 3
      | JArrayPrototype \<Rightarrow> 2
      | JObjectPrototype \<Rightarrow> 1
      | _ \<Rightarrow> 0)"

definition weight :: "json \<Rightarrow> nat" where
  "weight d = 4 * size d + rank d"

definition U8Parser :: "json \<Rightarrow> TypeTag \<Rightarrow> error + value" where
  "U8Parser data t =
     (if t \<noteq> Atomic U8 then Inl (CannotParseType (getTypeTagParamlessName t))
      else case data of
        JNum n \<Rightarrow>
          (if n < 0 \<or> n > 255 then Inl U8OutOfRange
           else if n \<noteq> of_int \<lfloor>n\<rfloor> then Inl U8NotInteger
           else Inr (NumberValue n))
      | _ \<Rightarrow> Inl (UnexpectedDataType (typeof data)))"

definition U64Parser :: "externals \<Rightarrow> json \<Rightarrow> TypeTag \<Rightarrow> error + value" where
  "U64Parser ext data t =
     (if t \<noteq> Atomic U64 then Inl (CannotParseType (getTypeTagParamlessName t))
      else case data of
        JStr s \<Rightarrow> (case bigInt ext s of Inl e \<Rightarrow> Inl e | Inr n \<Rightarrow> Inr (BigInteger n))
      | _ \<Rightarrow> Inl (UnexpectedDataType (typeof data)))"

definition U128Parser :: "externals \<Rightarrow> json \<Rightarrow> TypeTag \<Rightarrow> error + value" where
  "U128Parser ext data t =
     (if t \<noteq> Atomic U128 then Inl (CannotParseType (getTypeTagParamlessName t))
      else case data of
        JStr s \<Rightarrow> (case bigInt ext s of Inl e \<Rightarrow> Inl e | Inr n \<Rightarrow> Inr (BigInteger n))
      | _ \<Rightarrow> Inl (UnexpectedDataType (typeof data)))"

definition BoolParser :: "json \<Rightarrow> TypeTag \<Rightarrow> error + value" where
  "BoolParser data t =
     (if t \<noteq> Atomic Bool then Inl (CannotParseType (getTypeTagParamlessName t))
      else case data of
        JBool b \<Rightarrow> Inr (BoolValue b)
      | _ \<Rightarrow> Inl (UnexpectedDataType (typeof data)))"

definition AddressParser :: "json \<Rightarrow> TypeTag \<Rightarrow> error + value" where
  "AddressParser data t =
     (if t \<noteq> Atomic Address then Inl (CannotParseType (getTypeTagParamlessName t))
      else case data of
        JStr s \<Rightarrow> Inr (HexStringValue (new_HexString s))
      | _ \<Rightarrow> Inl (UnexpectedDataType (typeof data)))"

definition parseVectorU8 :: "externals \<Rightarrow> json \<Rightarrow> error + nat list" where
  "parseVectorU8 ext data =
     (case data of
        JStr s \<Rightarrow>
          (if \<not> startsWith s ''0x'' then Inl VectorU8NoPrefix
           else Inr (toUint8Array ext (new_HexString s)))
      | _ \<Rightarrow> Inl (UnexpectedDataType (typeof data)))"

definition AsciiParser :: "json \<Rightarrow> TypeTag \<Rightarrow> error + value" where
  "AsciiParser data t =
     (let tagName = getTypeTagFullname t in
      if tagName \<noteq> ''0x1::ASCII::String'' then Inl (AsciiUnsupported tagName)
      else Inr (RawValue data))"

definition getParserFromParamlessName :: "AptosParserRepo \<Rightarrow> string \<Rightarrow> ParserFunc option" where
  "getParserFromParamlessName repo paramlessName = paramlessNameToParser repo paramlessName"

definition getParserFromTypeTag :: "AptosParserRepo \<Rightarrow> TypeTag \<Rightarrow> ParserFunc option" where
  "getParserFromTypeTag repo t = getParserFromParamlessName repo (getTypeTagParamlessName t)"

definition addParser :: "string \<Rightarrow> ParserFunc \<Rightarrow> AptosParserRepo \<Rightarrow> AptosParserRepo" where
  "addParser paramlessName parser repo =
     repo\<lparr>paramlessNameToParser := (paramlessNameToParser repo)(paramlessName \<mapsto> parser)\<rparr>"

definition addDefaultParsers :: "AptosParserRepo \<Rightarrow> AptosParserRepo" where
  "addDefaultParsers repo =
     addParser ''0x1::ASCII::String'' Fn_AsciiParser
      (addParser ''vector'' Fn_VectorParser
        (addParser ''address'' Fn_AddressParser
          (addParser ''u128'' Fn_U128Parser
            (addParser ''u64'' Fn_U64Parser
              (addParser ''u8'' Fn_U8Parser
                (addParser ''bool'' Fn_BoolParser repo))))))"


section \<open>The struct decode protocol and the vector parser\<close>

text \<open>
  The type a field is decoded with: a field declared as a type parameter takes the
  concrete tag's argument at that index (\<open>undefined\<close> in the source, \<open>None\<close> here, when
  there is none), any other field keeps the type it declares.
\<close>

definition fieldTypeTagOf :: "FieldDeclType \<Rightarrow> TypeTag list \<Rightarrow> TypeTag option" where
  "fieldTypeTagOf fieldDecl typeParams =
     (case typeTag fieldDecl of
        TypeParamIdx i \<Rightarrow> (if i < length typeParams then Some (typeParams ! i) else None)
      | t \<Rightarrow> Some t)"

lemma size_map_of:
  "map_of kvs k = Some v \<Longrightarrow> size v < size (JObj kvs)"
  by (induction kvs) (auto split: if_splits)

lemma size_findIndexKey:
  "findIndexKey k xs i = Some v \<Longrightarrow> size v < size (JArr xs)"
proof (induction xs arbitrary: i)
  case Nil
  then show ?case by simp
next
  case (Cons x xs)
  show ?case
  proof (cases "k = indexKey i")
    case True
    with Cons.prems show ?thesis by simp
  next
    case False
    with Cons.prems have "findIndexKey k xs (Suc i) = Some v" by simp
    from Cons.IH [OF this] show ?thesis by simp
  qed
qed

lemma rank_le: "rank d \<le> 3"
  by (cases d) (simp_all add: rank_def)

lemma weight_smaller: "size v < size d \<Longrightarrow> weight v < weight d"
  using rank_le [of v] by (simp add: weight_def)

lemma weight_functionMember:
  "functionMember names k = Some v \<Longrightarrow> weight v = 0"
  by (auto simp: functionMember_def weight_def rank_def split: if_splits)

lemma weight_getProperty:
  "getProperty ext d k = Some v \<Longrightarrow> weight v < weight d"
proof (cases d)
  case (JObj kvs)
  assume g: "getProperty ext d k = Some v"
  show ?thesis
  proof (cases "map_of kvs k")
    case (Some w)
    with g JObj have "v = w" by simp
    with Some JObj show ?thesis using weight_smaller [OF size_map_of [OF Some]] by simp
  next
    case None
    with g JObj have "v = JObjectPrototype \<or> functionMember objectPrototypeNames k = Some v"
      by (auto split: if_splits)
    then show ?thesis
      using JObj by (auto simp: weight_def rank_def dest: weight_functionMember)
  qed
next
  case (JArr xs)
  assume g: "getProperty ext d k = Some v"
  show ?thesis
  proof (cases "k = ''length''")
    case True
    with g JArr show ?thesis by (auto simp: weight_def rank_def)
  next
    case False
    show ?thesis
    proof (cases "findIndexKey k xs 0")
      case (Some w)
      with g JArr False have "v = w" by simp
      with Some JArr show ?thesis using weight_smaller [OF size_findIndexKey [OF Some]] by simp
    next
      case None
      with g JArr False have "v = JArrayPrototype
          \<or> functionMember (arrayPrototypeNames ext @ objectPrototypeNames) k = Some v"
        by (auto split: if_splits)
      then show ?thesis
        using JArr by (auto simp: weight_def rank_def dest: weight_functionMember)
    qed
  qed
next
  case JArrayPrototype
  assume "getProperty ext d k = Some v"
  with JArrayPrototype show ?thesis
    by (auto simp: weight_def rank_def split: if_splits dest: weight_functionMember)
next
  case JObjectPrototype
  assume "getProperty ext d k = Some v"
  with JObjectPrototype show ?thesis
    by (auto simp: weight_def rank_def split: if_splits dest: weight_functionMember)
qed simp_all

lemma weight_element: "weight x < weight (JArr (x # xs))"
  using rank_le [of x] by (simp add: weight_def rank_def)

lemma weight_rest: "weight (JArr xs) < weight (JArr (x # xs))"
  by (simp add: weight_def rank_def)

text \<open>
  \<open>callParser\<close> calls a registered parser function on a raw value. \<open>parseFields\<close> is the
  loop of \<open>parseStructProto\<close> over the declared fields, \<open>parseElements\<close> the loop of
  \<open>VectorParser\<close> over the elements. Every nested call decodes a proper part of the raw
  value, which is why the recursion ends.
\<close>

function callParser :: "externals \<Rightarrow> AptosParserRepo \<Rightarrow> ParserFunc \<Rightarrow> json \<Rightarrow> TypeTag \<Rightarrow> error + value"
  and parseStructProto :: "externals \<Rightarrow> AptosParserRepo \<Rightarrow> json \<Rightarrow> TypeTag \<Rightarrow> StructInfoType \<Rightarrow> error + value"
  and parseFields :: "externals \<Rightarrow> AptosParserRepo \<Rightarrow> json \<Rightarrow> TypeTag list \<Rightarrow> FieldDeclType list
                        \<Rightarrow> (string \<times> value) list \<Rightarrow> error + value"
  and VectorParser :: "externals \<Rightarrow> AptosParserRepo \<Rightarrow> json \<Rightarrow> TypeTag \<Rightarrow> error + value"
  and parseElements :: "externals \<Rightarrow> AptosParserRepo \<Rightarrow> ParserFunc \<Rightarrow> TypeTag \<Rightarrow> json list
                        \<Rightarrow> error + value list"
where
  "callParser ext repo parser data t =
     (case parser of
        Fn_BoolParser \<Rightarrow> BoolParser data t
      | Fn_U8Parser \<Rightarrow> U8Parser data t
      | Fn_U64Parser \<Rightarrow> U64Parser ext data t
      | Fn_U128Parser \<Rightarrow> U128Parser ext data t
      | Fn_AddressParser \<Rightarrow> AddressParser data t
      | Fn_VectorParser \<Rightarrow> VectorParser ext repo data t
      | Fn_AsciiParser \<Rightarrow> AsciiParser data t
      | Fn_StructParser struct \<Rightarrow>
          (case parseStructProto ext repo data t struct of
             Inl e \<Rightarrow> Inl e
           | Inr proto \<Rightarrow> Inr (StructObject struct proto t)))"
| "parseStructProto ext repo data t struct =
     (case t of
        StructTag address modname sname typeParams \<Rightarrow>
          (if hex address \<noteq> hex (moduleAddress struct) then Inl ModuleAddressMismatch
           else if modname \<noteq> moduleName struct then Inl ModuleNameMismatch
           else if sname \<noteq> name struct then Inl StructNameMismatch
           else if typeof data \<noteq> ''object'' then
             (if toShortString address = ''0x1'' \<and> modname = ''ASCII'' \<and> sname = ''String''
              then Inr (RawValue data)
              else Inl (ExpectsObject (typeof data)))
           else parseFields ext repo data typeParams (structFields struct) [])
      | _ \<Rightarrow> Inl ExpectsStructTag)"
| "parseFields ext repo data typeParams [] proto = Inr (ProtoObject proto)"
| "parseFields ext repo data typeParams (fieldDecl # rest) proto =
     (if hasPropertyRaises data then Inl TypeError
      else case getProperty ext data (fieldName fieldDecl) of
        None \<Rightarrow> Inl (MissingField (fieldName fieldDecl))
      | Some raw \<Rightarrow>
          (case fieldTypeTagOf fieldDecl typeParams of
             None \<Rightarrow> Inl BadParamIdx
           | Some fieldTypeTag \<Rightarrow>
               (case getParserFromTypeTag repo fieldTypeTag of
                  None \<Rightarrow> Inl (NoFieldParser (fieldName fieldDecl))
                | Some parser \<Rightarrow>
                    (case callParser ext repo parser raw fieldTypeTag of
                       Inl e \<Rightarrow> Inl e
                     | Inr parsedValue \<Rightarrow>
                         parseFields ext repo data typeParams rest
                           (AList.update (fieldName fieldDecl) parsedValue proto)))))"
| "VectorParser ext repo data t =
     (case t of
        VectorTag elementType \<Rightarrow>
          (if elementType = Atomic U8 then
             (case parseVectorU8 ext data of
                Inl e \<Rightarrow> Inl e
              | Inr u8array \<Rightarrow> Inr (ArrayValue (map (\<lambda>b. NumberValue (of_nat b)) u8array)))
           else case data of
             JArr elements \<Rightarrow>
               (case getParserFromParamlessName repo (getTypeTagParamlessName elementType) of
                  None \<Rightarrow> Inl (NoElementParser (getTypeTagParamlessName elementType))
                | Some elementParser \<Rightarrow>
                    (case parseElements ext repo elementParser elementType elements of
                       Inl e \<Rightarrow> Inl e
                     | Inr vector \<Rightarrow> Inr (ArrayValue vector)))
           | _ \<Rightarrow> Inl (UnexpectedDataType (typeof data)))
      | _ \<Rightarrow> Inl (CannotParseType (getTypeTagParamlessName t)))"
| "parseElements ext repo elementParser elementType [] = Inr []"
| "parseElements ext repo elementParser elementType (element # rest) =
     (case callParser ext repo elementParser element elementType of
        Inl e \<Rightarrow> Inl e
      | Inr v \<Rightarrow>
          (case parseElements ext repo elementParser elementType rest of
             Inl e \<Rightarrow> Inl e
           | Inr vs \<Rightarrow> Inr (v # vs)))"
  by pat_completeness auto
termination
proof (relation "measures
        [\<lambda>x. case x of
            Inl (Inl (ext, repo, parser, data, t)) \<Rightarrow> 3 * weight data + 2
          | Inl (Inr (ext, repo, data, t, struct)) \<Rightarrow> 3 * weight data + 1
          | Inr (Inl (ext, repo, data, typeParams, decls, proto)) \<Rightarrow> 3 * weight data
          | Inr (Inr (Inl (ext, repo, data, t))) \<Rightarrow> 3 * weight data + 1
          | Inr (Inr (Inr (ext, repo, parser, t, elements))) \<Rightarrow> 3 * weight (JArr elements),
         \<lambda>x. case x of
            Inr (Inl (ext, repo, data, typeParams, decls, proto)) \<Rightarrow> length decls
          | _ \<Rightarrow> 0]", goal_cases)
  case 1
  then show ?case by simp
next
  case 2
  then show ?case by simp
next
  case 3
  then show ?case by simp
next
  case 4
  then show ?case by simp
next
  case (5 ext repo data typeParams fieldDecl rest proto raw fieldTypeTag parser)
  then show ?case using weight_getProperty [of ext data "fieldName fieldDecl" raw] by simp
next
  case 6
  then show ?case by simp
next
  case 7
  then show ?case by simp
next
  case (8 ext repo elementParser elementType element rest)
  then show ?case using weight_element [of element rest] by simp
next
  case (9 ext repo elementParser elementType element rest)
  then show ?case using weight_rest [of rest element] by simp
qed

declare callParser.simps [simp del]
declare parseStructProto.simps [simp del]
declare VectorParser.simps [simp del]

definition parse :: "externals \<Rightarrow> AptosParserRepo \<Rightarrow> json \<Rightarrow> TypeTag \<Rightarrow> error + value" where
  "parse ext repo data t =
     (let paramlessName = getTypeTagParamlessName t in
      case paramlessNameToParser repo paramlessName of
        None \<Rightarrow> Inl (NoParserRegistered paramlessName)
      | Some parser \<Rightarrow> callParser ext repo parser data t)"

section \<open>The network client\<close>

text \<open>
  The client is the aptos SDK's. \<open>getAccountResource\<close> answers with the \<open>data\<close> of the
  resource of the given full type name, \<open>getAccountResources\<close> with the \<open>type\<close> and the
  \<open>data\<close> of every resource of the account; either may fail. The record holds what the
  network answers at the time of the call.
\<close>

record AptosClient =
  getAccountResource :: "HexString \<Rightarrow> string \<Rightarrow> error + json"
  getAccountResources :: "HexString \<Rightarrow> error + (string \<times> json) list"

definition loadResource ::
  "externals \<Rightarrow> AptosParserRepo \<Rightarrow> AptosClient \<Rightarrow> HexString \<Rightarrow> StructInfoType \<Rightarrow> TypeTag list
     \<Rightarrow> error + value" where
  "loadResource ext repo client address structTsType typeParams =
     (if length (typeParameters structTsType) \<noteq> length typeParams
      then Inl (TypeParamCountMismatch (length (typeParameters structTsType)) (length typeParams))
      else
        let t = StructTag (moduleAddress structTsType) (moduleName structTsType)
                  (name structTsType) typeParams
        in case getAccountResource client address (getTypeTagFullname t) of
             Inl e \<Rightarrow> Inl e
           | Inr data \<Rightarrow>
               (case parseStructProto ext repo data t structTsType of
                  Inl e \<Rightarrow> Inl e
                | Inr proto \<Rightarrow> Inr (StructObject structTsType proto t)))"

section \<open>The resource cache\<close>

datatype UpdateType = update | delete

text \<open>
  A listener is an identity and a callback. The callback is an opaque handle: calling it
  is recorded as a notification (the callback, the update type, the value or \<open>None\<close> for
  \<open>null\<close>), in the order of the calls. A callback is taken to return normally and to
  leave the cache alone.
\<close>

record 'cb ListenerType =
  listener_id :: string
  callback :: 'cb

type_synonym 'cb notification = "'cb \<times> UpdateType \<times> value option"

record 'cb AptosResourceCache =
  cachedResources :: "string \<rightharpoonup> value"
  resourceKeyToLoadParams :: "string \<rightharpoonup> StructInfoType \<times> HexString \<times> TypeTag list"
  updateListener :: "string \<rightharpoonup> 'cb ListenerType list"
  watchedAddresses :: "HexString set"
  client :: AptosClient
  repo :: AptosParserRepo

text \<open>
  \<open>watchedAddresses\<close> is a JavaScript set of \<open>HexString\<close> objects; here two addresses with
  the same string are the same member.
\<close>

text \<open>
  Every operation of the cache returns its outcome (an error raised, or the value
  returned), the cache as the call leaves it -- what was written before an error is
  raised stays written -- and the notifications it made.
\<close>

type_synonym ('cb, 'a) outcome = "(error + 'a) \<times> 'cb AptosResourceCache \<times> 'cb notification list"

definition new_AptosResourceCache :: "AptosClient \<Rightarrow> AptosParserRepo \<Rightarrow> 'cb AptosResourceCache" where
  "new_AptosResourceCache cl rp =
     \<lparr>cachedResources = Map.empty, resourceKeyToLoadParams = Map.empty,
      updateListener = Map.empty, watchedAddresses = {}, client = cl, repo = rp\<rparr>"

definition getResourceKey :: "HexString \<Rightarrow> TypeTag \<Rightarrow> string" where
  "getResourceKey ownerAddress t = hex ownerAddress @ ''/'' @ getTypeTagFullname t"

definition notify :: "'cb ListenerType list option \<Rightarrow> UpdateType \<Rightarrow> value option \<Rightarrow> 'cb notification list" where
  "notify listeners ty v =
     (case listeners of
        None \<Rightarrow> []
      | Some ls \<Rightarrow> map (\<lambda>listener. (callback listener, ty, v)) ls)"

text \<open>The listeners registered for a key, in the order the list holds them.\<close>

definition listenersOf :: "'cb AptosResourceCache \<Rightarrow> string \<Rightarrow> 'cb ListenerType list" where
  "listenersOf c resourceKey = (case updateListener c resourceKey of None \<Rightarrow> [] | Some ls \<Rightarrow> ls)"

definition updateResource ::
  "string \<Rightarrow> value \<Rightarrow> 'cb AptosResourceCache \<Rightarrow> 'cb AptosResourceCache \<times> 'cb notification list" where
  "updateResource resourceKey v c =
     (c\<lparr>cachedResources := (cachedResources c)(resourceKey \<mapsto> v)\<rparr>,
      notify (updateListener c resourceKey) update (Some v))"

definition deleteResource ::
  "string \<Rightarrow> 'cb AptosResourceCache \<Rightarrow> 'cb AptosResourceCache \<times> 'cb notification list" where
  "deleteResource resourceKey c =
     (c\<lparr>cachedResources := (cachedResources c)(resourceKey := None)\<rparr>,
      notify (updateListener c resourceKey) delete None)"

definition addListenerForResource ::
  "string \<Rightarrow> 'cb ListenerType \<Rightarrow> 'cb AptosResourceCache \<Rightarrow> 'cb AptosResourceCache" where
  "addListenerForResource resourceKey listener c =
     (let c1 = (if updateListener c resourceKey = None
                then c\<lparr>updateListener := (updateListener c)(resourceKey \<mapsto> [])\<rparr>
                else c);
          registered = the (updateListener c1 resourceKey)
      in if \<exists>registeredListener \<in> set registered.
              listener_id registeredListener = listener_id listener
         then c1
         else c1\<lparr>updateListener := (updateListener c1)(resourceKey \<mapsto> registered @ [listener])\<rparr>)"

text \<open>
  The upsert that \<open>load\<close> and \<open>loadAccount\<close> share: a key already cached is updated and
  its listeners are told, a new key is written silently.
\<close>

definition upsert ::
  "string \<Rightarrow> value \<Rightarrow> 'cb AptosResourceCache \<Rightarrow> 'cb AptosResourceCache \<times> 'cb notification list" where
  "upsert resourceKey v c =
     (if cachedResources c resourceKey \<noteq> None
      then updateResource resourceKey v c
      else (c\<lparr>cachedResources := (cachedResources c)(resourceKey \<mapsto> v)\<rparr>, []))"

definition addListenerIfGiven ::
  "string \<Rightarrow> 'cb ListenerType option \<Rightarrow> 'cb AptosResourceCache \<Rightarrow> 'cb AptosResourceCache" where
  "addListenerIfGiven resourceKey listener c =
     (case listener of
        None \<Rightarrow> c
      | Some l \<Rightarrow> addListenerForResource resourceKey l c)"

definition load ::
  "externals \<Rightarrow> StructInfoType \<Rightarrow> HexString \<Rightarrow> TypeTag list \<Rightarrow> 'cb ListenerType option
     \<Rightarrow> 'cb AptosResourceCache \<Rightarrow> ('cb, value) outcome" where
  "load ext struct address typeParams listener c =
     (case loadResource ext (repo c) (client c) address struct typeParams of
        Inl e \<Rightarrow> (Inl e, c, [])
      | Inr loaded \<Rightarrow>
          (let t = StructTag (moduleAddress struct) (moduleName struct) (structName struct)
                     typeParams;
               resourceKey = getResourceKey address t;
               (c1, notes) = upsert resourceKey loaded c;
               c2 = c1\<lparr>resourceKeyToLoadParams :=
                         (resourceKeyToLoadParams c1)(resourceKey \<mapsto> (struct, address, typeParams))\<rparr>
           in (Inr loaded, addListenerIfGiven resourceKey listener c2, notes)))"

text \<open>
  The loop of \<open>loadAccount\<close>. The type string is parsed outside the \<open>try\<close>, so a parse
  error leaves the loop; what the \<open>try\<close> block raises is caught and the entry is skipped.
\<close>

fun loadAccountLoop ::
  "externals \<Rightarrow> HexString \<Rightarrow> 'cb ListenerType option \<Rightarrow> (string \<times> json) list \<Rightarrow> string list
     \<Rightarrow> 'cb AptosResourceCache \<Rightarrow> ('cb, string list) outcome" where
  "loadAccountLoop ext address listener [] loadedResourceKeys c = (Inr loadedResourceKeys, c, [])"
| "loadAccountLoop ext address listener (resource # rest) loadedResourceKeys c =
     (case parseTypeTagOrThrow ext (fst resource) of
        Inl e \<Rightarrow> (Inl e, c, [])
      | Inr t \<Rightarrow>
          (case parse ext (repo c) (snd resource) t of
             Inl e \<Rightarrow> loadAccountLoop ext address listener rest loadedResourceKeys c
           | Inr v \<Rightarrow>
               (let resourceKey = getResourceKey address t;
                    (c1, notes) = upsert resourceKey v c;
                    c2 = addListenerIfGiven resourceKey listener c1;
                    (r, c3, notes') =
                       loadAccountLoop ext address listener rest
                         (loadedResourceKeys @ [resourceKey]) c2
                in (r, c3, notes @ notes'))))"

definition loadAccount ::
  "externals \<Rightarrow> HexString \<Rightarrow> 'cb ListenerType option \<Rightarrow> 'cb AptosResourceCache
     \<Rightarrow> ('cb, string list) outcome" where
  "loadAccount ext address listener c =
     (case getAccountResources (client c) address of
        Inl e \<Rightarrow> (Inl e, c, [])
      | Inr resources \<Rightarrow>
          (case loadAccountLoop ext address listener resources [] c of
             (Inl e, c1, notes) \<Rightarrow> (Inl e, c1, notes)
           | (Inr loadedResourceKeys, c1, notes) \<Rightarrow>
               (Inr loadedResourceKeys,
                c1\<lparr>watchedAddresses := insert address (watchedAddresses c1)\<rparr>, notes)))"

text \<open>
  For an entry of the resource list: the resource key it is cached under, what parsing
  its type string and decoding its data give, and the write of the decoded entry to the
  map of cached resources.
\<close>

definition resourceKeyOf :: "externals \<Rightarrow> HexString \<Rightarrow> string \<times> json \<Rightarrow> string" where
  "resourceKeyOf ext address resource =
     getResourceKey address (projr (parseTypeTagOrThrow ext (fst resource)))"

definition decodedOf :: "externals \<Rightarrow> AptosParserRepo \<Rightarrow> string \<times> json \<Rightarrow> error + value" where
  "decodedOf ext rp resource =
     (case parseTypeTagOrThrow ext (fst resource) of
        Inl e \<Rightarrow> Inl e
      | Inr t \<Rightarrow> parse ext rp (snd resource) t)"

definition recordResource ::
  "externals \<Rightarrow> AptosParserRepo \<Rightarrow> HexString \<Rightarrow> (string \<rightharpoonup> value) \<Rightarrow> string \<times> json
     \<Rightarrow> (string \<rightharpoonup> value)" where
  "recordResource ext rp address m resource =
     m(resourceKeyOf ext address resource \<mapsto> projr (decodedOf ext rp resource))"

text \<open>
  A transaction result: \<open>success\<close>, \<open>hash\<close> and the change-set. A change is a
  \<open>write_resource\<close> (address, type string and data of the resource written), a
  \<open>delete_resource\<close> (address and type string of the resource deleted) or of another
  kind, which the cache ignores.
\<close>

datatype WriteSetChange =
    write_resource string string json
  | delete_resource string string
  | other_change string

record UserTransaction =
  success :: bool
  hash :: string
  changes :: "WriteSetChange list"

fun applyChange ::
  "externals \<Rightarrow> WriteSetChange \<Rightarrow> 'cb AptosResourceCache \<Rightarrow> ('cb, unit) outcome" where
  "applyChange ext (write_resource address ty data) c =
     (case parseTypeTagOrThrow ext ty of
        Inl e \<Rightarrow> (Inl e, c, [])
      | Inr t \<Rightarrow>
          (let resourceKey = getResourceKey (new_HexString address) t in
           if cachedResources c resourceKey \<noteq> None then
             (case parse ext (repo c) data t of
                Inl e \<Rightarrow> (Inl e, c, [])
              | Inr newValue \<Rightarrow>
                  (let (c1, notes) = updateResource resourceKey newValue c
                   in (Inr (), c1, notes)))
           else (Inr (), c, [])))"
| "applyChange ext (delete_resource address resource) c =
     (case parseTypeTagOrThrow ext resource of
        Inl e \<Rightarrow> (Inl e, c, [])
      | Inr t \<Rightarrow>
          (let resourceKey = getResourceKey (new_HexString address) t in
           if cachedResources c resourceKey \<noteq> None then
             (let (c1, notes) = deleteResource resourceKey c
              in (Inr (), c1, notes))
           else (Inr (), c, [])))"
| "applyChange ext (other_change kind) c = (Inr (), c, [])"

fun applyChanges ::
  "externals \<Rightarrow> WriteSetChange list \<Rightarrow> 'cb AptosResourceCache \<Rightarrow> ('cb, unit) outcome" where
  "applyChanges ext [] c = (Inr (), c, [])"
| "applyChanges ext (change # rest) c =
     (case applyChange ext change c of
        (Inl e, c1, notes) \<Rightarrow> (Inl e, c1, notes)
      | (Inr u, c1, notes) \<Rightarrow>
          (let (r, c2, notes') = applyChanges ext rest c1
           in (r, c2, notes @ notes')))"

definition updateFromTransactionResult ::
  "externals \<Rightarrow> UserTransaction \<Rightarrow> 'cb AptosResourceCache \<Rightarrow> ('cb, unit) outcome" where
  "updateFromTransactionResult ext txn c =
     (if success txn \<and> hash txn \<noteq> ''0x0''
      then applyChanges ext (changes txn) c
      else (Inr (), c, []))"


section \<open>Example inputs\<close>

text \<open>
  A \<open>bigInt\<close> that reads decimal strings, a \<open>parseTypeTagOrThrow\<close> that knows a few type
  strings, the generic struct \<open>0x1::Coin::Store<T>\<close> with a field of type \<open>T\<close>, a registry
  with the default parsers and the parser of that struct, a client, and a cache that holds
  one resource with one listener.
\<close>

fun decimalValue :: "string \<Rightarrow> nat \<Rightarrow> nat option" where
  "decimalValue [] acc = Some acc"
| "decimalValue (ch # rest) acc =
     (let n = of_char ch :: nat in
      if 48 \<le> n \<and> n \<le> 57 then decimalValue rest (10 * acc + (n - 48)) else None)"

definition decimalBigInt :: "string \<Rightarrow> error + int" where
  "decimalBigInt s =
     (if s = [] then Inl (InvalidInteger s)
      else case decimalValue s 0 of None \<Rightarrow> Inl (InvalidInteger s) | Some n \<Rightarrow> Inr (int n))"

definition CoinStore :: StructInfoType where
  "CoinStore =
     \<lparr>moduleAddress = HexString ''0x1'', moduleName = ''Coin'', name = ''Store'',
      structName = ''Store'',
      typeParameters = [\<lparr>paramName = ''T'', isPhantom = False\<rparr>],
      structFields = [\<lparr>fieldName = ''value'', typeTag = TypeParamIdx 0\<rparr>,
                      \<lparr>fieldName = ''frozen'', typeTag = Atomic Bool\<rparr>]\<rparr>"

definition CoinStoreOf :: "TypeTag \<Rightarrow> TypeTag" where
  "CoinStoreOf t = StructTag (HexString ''0x1'') ''Coin'' ''Store'' [t]"

text \<open>
  A struct with two type parameters, each the type of one field, and a raw value of it.
\<close>

definition Pool :: StructInfoType where
  "Pool =
     \<lparr>moduleAddress = HexString ''0x1'', moduleName = ''Pool'', name = ''Pool'',
      structName = ''0x1::Pool::Pool'',
      typeParameters = [\<lparr>paramName = ''X'', isPhantom = False\<rparr>,
                        \<lparr>paramName = ''Y'', isPhantom = False\<rparr>],
      structFields = [\<lparr>fieldName = ''first'', typeTag = TypeParamIdx 0\<rparr>,
                      \<lparr>fieldName = ''second'', typeTag = TypeParamIdx 1\<rparr>]\<rparr>"

definition pairData :: "json \<Rightarrow> json \<Rightarrow> json" where
  "pairData a b = JObj [(''first'', a), (''second'', b)]"

definition tableParseTypeTag :: "string \<Rightarrow> error + TypeTag" where
  "tableParseTypeTag s =
     (if s = ''0x1::Coin::Store<u64>'' then Inr (CoinStoreOf (Atomic U64))
      else if s = ''0x1::Coin::Store<bool>'' then Inr (CoinStoreOf (Atomic Bool))
      else if s = ''u64'' then Inr (Atomic U64)
      else if s = ''vector<u8>'' then Inr (VectorTag (Atomic U8))
      else Inl (ParseTypeTagError s))"

definition exampleExt :: externals where
  "exampleExt =
     \<lparr>parseTypeTagOrThrow = tableParseTypeTag,
      bigInt = decimalBigInt,
      bytesOfMalformedHex = (\<lambda>s. []),
      arrayPrototypeNames = [''concat'', ''filter'', ''forEach'', ''indexOf'', ''join'',
                             ''map'', ''pop'', ''push'', ''slice'']\<rparr>"

definition exampleRepo :: AptosParserRepo where
  "exampleRepo =
     addDefaultParsers
       (addParser ''0x1::Coin::Store'' (Fn_StructParser CoinStore)
          \<lparr>paramlessNameToParser = Map.empty\<rparr>)"

definition storeData :: "json \<Rightarrow> json" where
  "storeData v = JObj [(''value'', v), (''frozen'', JBool False)]"

definition storeValue :: "value \<Rightarrow> TypeTag \<Rightarrow> value" where
  "storeValue v t =
     StructObject CoinStore (ProtoObject [(''value'', v), (''frozen'', BoolValue False)])
       (CoinStoreOf t)"

definition exampleClient :: AptosClient where
  "exampleClient =
     \<lparr>getAccountResource =
        (\<lambda>a n. if n = ''0x1::Coin::Store<u64>'' then Inr (storeData (JStr ''42''))
               else if n = ''0x1::Coin::Store<bool>'' then Inr (storeData (JStr ''42''))
               else Inl (NetworkError ''not found'')),
      getAccountResources =
        (\<lambda>a. Inr [(''0x1::Coin::Store<u64>'', storeData (JStr ''42'')),
                  (''0x1::Coin::Store<bool>'', storeData (JStr ''42'')),
                  (''u64'', JStr ''5'')])\<rparr>"

definition AsciiString :: StructInfoType where
  "AsciiString =
     \<lparr>moduleAddress = HexString ''0x1'', moduleName = ''ASCII'', name = ''String'',
      structName = ''String'', typeParameters = [],
      structFields = [\<lparr>fieldName = ''bytes'', typeTag = VectorTag (Atomic U8)\<rparr>]\<rparr>"

definition unknownTypeClient :: AptosClient where
  "unknownTypeClient =
     \<lparr>getAccountResource = (\<lambda>a n. Inl (NetworkError ''not found'')),
      getAccountResources =
        (\<lambda>a. Inr [(''0x1::Coin::Store<u64>'', storeData (JStr ''42'')),
                  (''0x1::Unknown'', JNull),
                  (''u64'', JStr ''5'')])\<rparr>"

definition storeKey :: string where
  "storeKey = ''0xa/0x1::Coin::Store<u64>''"

definition exampleCache :: "string AptosResourceCache" where
  "exampleCache =
     \<lparr>cachedResources = [storeKey \<mapsto> storeValue (BigInteger 7) (Atomic U64)],
      resourceKeyToLoadParams = Map.empty,
      updateListener = [storeKey \<mapsto> [\<lparr>listener_id = ''ui'', callback = ''onStore''\<rparr>]],
      watchedAddresses = {},
      client = exampleClient,
      repo = exampleRepo\<rparr>"

definition deleteStoreTxn :: "bool \<Rightarrow> string \<Rightarrow> UserTransaction" where
  "deleteStoreTxn ok h =
     \<lparr>success = ok, hash = h, changes = [delete_resource ''0xa'' ''0x1::Coin::Store<u64>'']\<rparr>"

text \<open>
  A cache whose registry holds the default parsers only: both resources were loaded by
  \<open>load\<close>, which decodes with the schema it is given and needs no registered parser for
  the struct itself. And a transaction that writes one of them and deletes the other.
\<close>

definition defaultRepo :: AptosParserRepo where
  "defaultRepo = addDefaultParsers \<lparr>paramlessNameToParser = Map.empty\<rparr>"

definition boolStoreKey :: string where
  "boolStoreKey = ''0xa/0x1::Coin::Store<bool>''"

definition twoStoreCache :: "string AptosResourceCache" where
  "twoStoreCache =
     \<lparr>cachedResources = [storeKey \<mapsto> storeValue (BigInteger 7) (Atomic U64),
                          boolStoreKey \<mapsto> storeValue (BoolValue True) (Atomic Bool)],
      resourceKeyToLoadParams =
        [storeKey \<mapsto> (CoinStore, HexString ''0xa'', [Atomic U64]),
         boolStoreKey \<mapsto> (CoinStore, HexString ''0xa'', [Atomic Bool])],
      updateListener = [boolStoreKey \<mapsto> [\<lparr>listener_id = ''ui'', callback = ''onStore''\<rparr>]],
      watchedAddresses = {},
      client = exampleClient,
      repo = defaultRepo\<rparr>"

definition writeThenDeleteTxn :: UserTransaction where
  "writeThenDeleteTxn =
     \<lparr>success = True, hash = ''0xabc'',
      changes = [write_resource ''0xa'' ''0x1::Coin::Store<u64>'' (storeData (JStr ''8'')),
                 delete_resource ''0xa'' ''0x1::Coin::Store<bool>'']\<rparr>"

lemmas example_defs =
  exampleExt_def tableParseTypeTag_def decimalBigInt_def exampleRepo_def exampleClient_def
  exampleCache_def storeKey_def storeValue_def storeData_def CoinStore_def CoinStoreOf_def
  deleteStoreTxn_def AsciiString_def unknownTypeClient_def

lemmas cache_defs =
  getResourceKey_def new_HexString_def startsWith_def notify_def updateResource_def
  deleteResource_def upsert_def addListenerIfGiven_def atomicName_def

lemmas decode_defs =
  parse_def addDefaultParsers_def addParser_def callParser.simps parseStructProto.simps
  VectorParser.simps hasPropertyRaises_def fieldTypeTagOf_def getParserFromTypeTag_def
  getParserFromParamlessName_def atomicName_def U8Parser_def U64Parser_def U128Parser_def
  BoolParser_def AddressParser_def AsciiParser_def parseVectorU8_def toShortString_def
  startsWith_def

section \<open>Facts about the listener list\<close>

lemma addListenerForResource_fields:
  "cachedResources (addListenerForResource k l c) = cachedResources c"
  "resourceKeyToLoadParams (addListenerForResource k l c) = resourceKeyToLoadParams c"
  "watchedAddresses (addListenerForResource k l c) = watchedAddresses c"
  "client (addListenerForResource k l c) = client c"
  "repo (addListenerForResource k l c) = repo c"
  by (simp_all add: addListenerForResource_def Let_def)

lemma addListenerIfGiven_fields:
  "cachedResources (addListenerIfGiven k l c) = cachedResources c"
  "resourceKeyToLoadParams (addListenerIfGiven k l c) = resourceKeyToLoadParams c"
  "watchedAddresses (addListenerIfGiven k l c) = watchedAddresses c"
  "client (addListenerIfGiven k l c) = client c"
  "repo (addListenerIfGiven k l c) = repo c"
  by (simp_all add: addListenerIfGiven_def addListenerForResource_fields split: option.splits)

lemma notify_listenersOf:
  "notify (updateListener c k) ty v = map (\<lambda>l. (callback l, ty, v)) (listenersOf c k)"
  by (simp add: notify_def listenersOf_def split: option.splits)

lemma bex_eq_image: "(\<exists>r\<in>S. f r = a) = (a \<in> f ` S)"
  by auto

lemma listenersOf_addListener:
  "listenersOf (addListenerForResource k l c) k =
     (if listener_id l \<in> listener_id ` set (listenersOf c k) then listenersOf c k
      else listenersOf c k @ [l])"
proof (cases "updateListener c k")
  case None
  then show ?thesis
    by (simp add: addListenerForResource_def listenersOf_def)
next
  case (Some ls)
  have "(\<exists>r\<in>set ls. listener_id r = listener_id l) = (listener_id l \<in> listener_id ` set ls)"
    by (rule bex_eq_image)
  with Some show ?thesis
    by (simp add: addListenerForResource_def listenersOf_def)
qed

lemma listenersOf_fold:
  "distinct (map listener_id (listenersOf c k @ new)) \<Longrightarrow>
   listenersOf (fold (addListenerForResource k) new c) k = listenersOf c k @ new"
proof (induction new arbitrary: c)
  case Nil
  then show ?case by simp
next
  case (Cons l new)
  from Cons.prems have fresh: "listener_id l \<notin> listener_id ` set (listenersOf c k)"
    by auto
  then have step: "listenersOf (addListenerForResource k l c) k = listenersOf c k @ [l]"
    by (simp add: listenersOf_addListener)
  from Cons.prems have "distinct (map listener_id (listenersOf (addListenerForResource k l c) k @ new))"
    by (simp add: step)
  from Cons.IH [OF this] show ?case
    by (simp add: step)
qed

section \<open>The guard of updateFromTransactionResult\<close>

text \<open>
  Claim C1. \<open>updateFromTransactionResult\<close> changes the cache and calls listener callbacks
  only when the transaction succeeded and its hash is not the null hash, which the guard
  of the code writes \<open>0x0\<close> (the hash of a transaction result is a string). For a
  transaction with \<open>success\<close> false or with that hash the call returns normally, the
  cache -- \<open>cachedResources\<close>, \<open>updateListener\<close> and every other field -- is the one it
  was given, and no callback is called; conversely, whenever the cache or the list of
  notifications differs, the transaction succeeded and its hash is another one.
\<close>

theorem updateFromTransactionResult_guard:
  "(\<not> success txn \<or> hash txn = ''0x0''
      \<longrightarrow> updateFromTransactionResult ext txn c = (Inr (), c, []))
   \<and> (snd (updateFromTransactionResult ext txn c) \<noteq> (c, [])
      \<longrightarrow> success txn \<and> hash txn \<noteq> ''0x0'')"
  by (auto simp: updateFromTransactionResult_def)

theorem updateFromTransactionResult_guard_witness:
  "updateFromTransactionResult exampleExt (deleteStoreTxn False ''0xabc'') exampleCache
     = (Inr (), exampleCache, [])
   \<and> updateFromTransactionResult exampleExt (deleteStoreTxn True ''0x0'') exampleCache
     = (Inr (), exampleCache, [])
   \<and> snd (updateFromTransactionResult exampleExt (deleteStoreTxn True ''0xabc'') exampleCache)
       \<noteq> (exampleCache, [])
   \<and> success (deleteStoreTxn True ''0xabc'') \<and> hash (deleteStoreTxn True ''0xabc'') \<noteq> ''0x0''"
proof -
  have changed:
    "snd (updateFromTransactionResult exampleExt (deleteStoreTxn True ''0xabc'') exampleCache)
       \<noteq> (exampleCache, [])"
    by (simp add: updateFromTransactionResult_def example_defs cache_defs)
  show ?thesis
    using changed
      updateFromTransactionResult_guard [of "deleteStoreTxn False ''0xabc''" exampleExt exampleCache]
      updateFromTransactionResult_guard [of "deleteStoreTxn True ''0x0''" exampleExt exampleCache]
      updateFromTransactionResult_guard [of "deleteStoreTxn True ''0xabc''" exampleExt exampleCache]
    by (simp add: deleteStoreTxn_def)
qed

section \<open>A failing load\<close>

text \<open>
  Claim C10. When \<open>load\<close> fails -- the network fetch raises, or the struct decode of the
  fetched data raises, or \<open>loadResource\<close> raises for any other reason -- the error goes
  to the caller and the cache is the one the call was given: \<open>cachedResources\<close>,
  \<open>resourceKeyToLoadParams\<close> and \<open>updateListener\<close> hold what they held, so the replay
  tuple is not recorded and the listener is not registered; no callback is called.
\<close>

theorem load_failure_leaves_cache:
  "(length (typeParameters struct) = length typeParams
      \<and> getAccountResource (client c) address
           (getTypeTagFullname (StructTag (moduleAddress struct) (moduleName struct)
              (name struct) typeParams)) = Inl e
      \<longrightarrow> load ext struct address typeParams listener c = (Inl e, c, []))
   \<and> (length (typeParameters struct) = length typeParams
      \<and> getAccountResource (client c) address
           (getTypeTagFullname (StructTag (moduleAddress struct) (moduleName struct)
              (name struct) typeParams)) = Inr data
      \<and> parseStructProto ext (repo c) data
           (StructTag (moduleAddress struct) (moduleName struct) (name struct) typeParams)
           struct = Inl e
      \<longrightarrow> load ext struct address typeParams listener c = (Inl e, c, []))
   \<and> (loadResource ext (repo c) (client c) address struct typeParams = Inl e
      \<longrightarrow> load ext struct address typeParams listener c = (Inl e, c, []))"
  by (simp add: load_def loadResource_def)

lemma example_fetch_fails:
  "getAccountResource (client exampleCache) (HexString ''0xa'')
     (getTypeTagFullname (StructTag (moduleAddress CoinStore) (moduleName CoinStore)
        (name CoinStore) [Atomic U8])) = Inl (NetworkError ''not found'')"
  by (simp add: example_defs atomicName_def)

lemma example_fetch_bool:
  "getAccountResource (client exampleCache) (HexString ''0xa'')
     (getTypeTagFullname (StructTag (moduleAddress CoinStore) (moduleName CoinStore)
        (name CoinStore) [Atomic Bool])) = Inr (storeData (JStr ''42''))"
  by (simp add: example_defs atomicName_def)

lemma example_decode_fails:
  "parseStructProto exampleExt (repo exampleCache) (storeData (JStr ''42''))
     (StructTag (moduleAddress CoinStore) (moduleName CoinStore) (name CoinStore) [Atomic Bool])
     CoinStore = Inl (UnexpectedDataType ''string'')"
  by (simp add: example_defs decode_defs)

theorem load_failure_leaves_cache_witness:
  "load exampleExt CoinStore (HexString ''0xa'') [Atomic U8]
      (Some \<lparr>listener_id = ''new'', callback = ''onNew''\<rparr>) exampleCache
     = (Inl (NetworkError ''not found''), exampleCache, [])
   \<and> load exampleExt CoinStore (HexString ''0xa'') [Atomic Bool]
      (Some \<lparr>listener_id = ''new'', callback = ''onNew''\<rparr>) exampleCache
     = (Inl (UnexpectedDataType ''string''), exampleCache, [])
   \<and> load exampleExt CoinStore (HexString ''0xa'') []
      (Some \<lparr>listener_id = ''new'', callback = ''onNew''\<rparr>) exampleCache
     = (Inl (TypeParamCountMismatch 1 0), exampleCache, [])"
proof -
  have arity: "length (typeParameters CoinStore) = length [Atomic U8]"
    "length (typeParameters CoinStore) = length [Atomic Bool]"
    by (simp_all add: CoinStore_def)
  have mismatch: "loadResource exampleExt (repo exampleCache) (client exampleCache)
      (HexString ''0xa'') CoinStore [] = Inl (TypeParamCountMismatch 1 0)"
    by (simp add: loadResource_def CoinStore_def)
  show ?thesis
    using load_failure_leaves_cache [where struct = CoinStore and typeParams = "[Atomic U8]"
              and c = exampleCache and address = "HexString ''0xa''" and ext = exampleExt
              and e = "NetworkError ''not found''"]
          load_failure_leaves_cache [where struct = CoinStore and typeParams = "[Atomic Bool]"
              and c = exampleCache and address = "HexString ''0xa''" and ext = exampleExt
              and e = "UnexpectedDataType ''string''" and data = "storeData (JStr ''42'')"]
          load_failure_leaves_cache [where struct = CoinStore and typeParams = "[]"
              and c = exampleCache and address = "HexString ''0xa''" and ext = exampleExt
              and e = "TypeParamCountMismatch 1 0"]
          arity example_fetch_fails example_fetch_bool example_decode_fails mismatch
    by simp
qed


section \<open>Insert and update through load\<close>

text \<open>
  Claim C3. Take a call of \<open>load\<close> whose fetch and decode give the value \<open>loaded\<close>, and
  the resource key of the call. When the key is not yet cached, \<open>load\<close> writes the decoded
  value under the key and calls no listener callback. When the key is already cached --
  as it is when \<open>load\<close> is called again for it -- \<open>load\<close> stores the new value and calls
  the callback of each listener registered for the key exactly once, in the order of the
  list, with \<open>update\<close> and the new value. In both cases no other key of the cache changes.
\<close>

theorem load_insert_then_update:
  assumes "loadResource ext (repo c) (client c) address struct typeParams = Inr loaded"
    and "resourceKey = getResourceKey address
           (StructTag (moduleAddress struct) (moduleName struct) (structName struct) typeParams)"
  shows "(cachedResources c resourceKey = None \<longrightarrow>
            (\<exists>c'. load ext struct address typeParams listener c = (Inr loaded, c', [])
                  \<and> cachedResources c' = (cachedResources c)(resourceKey \<mapsto> loaded)))
       \<and> (cachedResources c resourceKey \<noteq> None \<longrightarrow>
            (\<exists>c'. load ext struct address typeParams listener c
                    = (Inr loaded, c',
                       map (\<lambda>l. (callback l, update, Some loaded)) (listenersOf c resourceKey))
                  \<and> cachedResources c' = (cachedResources c)(resourceKey \<mapsto> loaded)))"
  using assms
  by (auto simp: load_def upsert_def updateResource_def notify_listenersOf listenersOf_def
        addListenerIfGiven_fields Let_def)

lemma example_loadResource:
  "loadResource exampleExt exampleRepo exampleClient (HexString ''0xa'') CoinStore [Atomic U64]
     = Inr (storeValue (BigInteger 42) (Atomic U64))"
  by (simp add: loadResource_def example_defs decode_defs)

lemma example_storeKey:
  "storeKey = getResourceKey (HexString ''0xa'')
     (StructTag (moduleAddress CoinStore) (moduleName CoinStore) (structName CoinStore) [Atomic U64])"
  by (simp add: example_defs cache_defs)

theorem load_insert_then_update_witness:
  "(\<exists>c'. load exampleExt CoinStore (HexString ''0xa'') [Atomic U64]
            (Some \<lparr>listener_id = ''ui'', callback = ''onStore''\<rparr>)
            (new_AptosResourceCache exampleClient exampleRepo)
          = (Inr (storeValue (BigInteger 42) (Atomic U64)), c', [])
        \<and> cachedResources c' = [storeKey \<mapsto> storeValue (BigInteger 42) (Atomic U64)])
   \<and> (\<exists>c'. load exampleExt CoinStore (HexString ''0xa'') [Atomic U64]
            (Some \<lparr>listener_id = ''ui'', callback = ''onStore''\<rparr>) exampleCache
          = (Inr (storeValue (BigInteger 42) (Atomic U64)), c',
             [(''onStore'', update, Some (storeValue (BigInteger 42) (Atomic U64)))])
        \<and> cachedResources c' = [storeKey \<mapsto> storeValue (BigInteger 42) (Atomic U64)])"
proof -
  have fresh: "cachedResources (new_AptosResourceCache exampleClient exampleRepo :: string AptosResourceCache) storeKey = None"
    by (simp add: new_AptosResourceCache_def)
  have cached: "cachedResources exampleCache storeKey \<noteq> None"
    by (simp add: exampleCache_def)
  have ls: "listenersOf exampleCache storeKey = [\<lparr>listener_id = ''ui'', callback = ''onStore''\<rparr>]"
    by (simp add: listenersOf_def exampleCache_def)
  have l1: "loadResource exampleExt (repo (new_AptosResourceCache exampleClient exampleRepo :: string AptosResourceCache))
              (client (new_AptosResourceCache exampleClient exampleRepo :: string AptosResourceCache))
              (HexString ''0xa'') CoinStore [Atomic U64]
            = Inr (storeValue (BigInteger 42) (Atomic U64))"
    by (simp add: new_AptosResourceCache_def example_loadResource)
  have l2: "loadResource exampleExt (repo exampleCache) (client exampleCache)
              (HexString ''0xa'') CoinStore [Atomic U64]
            = Inr (storeValue (BigInteger 42) (Atomic U64))"
    by (simp add: exampleCache_def example_loadResource)
  show ?thesis
    using load_insert_then_update [OF l1 example_storeKey,
            where listener = "Some \<lparr>listener_id = ''ui'', callback = ''onStore''\<rparr>"]
          load_insert_then_update [OF l2 example_storeKey,
            where listener = "Some \<lparr>listener_id = ''ui'', callback = ''onStore''\<rparr>"]
          fresh cached ls
    by (simp add: new_AptosResourceCache_def exampleCache_def)
qed

section \<open>Listener identity and notification order\<close>

text \<open>
  Claim C8. Registering, for any resource key, a listener whose identity equals the
  identity of a listener already registered for the key is a no-op: the cache, and with it
  the listener list, stays as it is. A listener with a new identity goes to the end of the
  list, so listeners with distinct identities registered one after the other for a key
  without listeners are held in their order of registration; and an update or a delete
  notification calls the callbacks of the registered listeners in the order of that list.
\<close>

theorem listener_dedup_and_order:
  "(updateListener c resourceKey = Some ls
      \<and> (\<exists>registered\<in>set ls. listener_id registered = listener_id listener)
      \<longrightarrow> addListenerForResource resourceKey listener c = c)
   \<and> (listener_id listener \<notin> listener_id ` set (listenersOf c resourceKey)
      \<longrightarrow> listenersOf (addListenerForResource resourceKey listener c) resourceKey
            = listenersOf c resourceKey @ [listener])
   \<and> (listenersOf c resourceKey = [] \<and> distinct (map listener_id new)
      \<longrightarrow> listenersOf (fold (addListenerForResource resourceKey) new c) resourceKey = new)
   \<and> snd (updateResource resourceKey v c)
        = map (\<lambda>l. (callback l, update, Some v)) (listenersOf c resourceKey)
   \<and> snd (deleteResource resourceKey c)
        = map (\<lambda>l. (callback l, delete, None)) (listenersOf c resourceKey)"
proof -
  have noop: "updateListener c resourceKey = Some ls
      \<and> (\<exists>registered\<in>set ls. listener_id registered = listener_id listener)
      \<longrightarrow> addListenerForResource resourceKey listener c = c"
    by (simp add: addListenerForResource_def)
  have order: "listenersOf c resourceKey = [] \<and> distinct (map listener_id new)
      \<longrightarrow> listenersOf (fold (addListenerForResource resourceKey) new c) resourceKey = new"
    using listenersOf_fold [of c resourceKey new] by simp
  show ?thesis
    using noop order
    by (simp add: listenersOf_addListener updateResource_def deleteResource_def notify_listenersOf)
qed

theorem listener_dedup_and_order_witness:
  "addListenerForResource storeKey \<lparr>listener_id = ''ui'', callback = ''other''\<rparr> exampleCache
     = exampleCache
   \<and> listenersOf (addListenerForResource storeKey \<lparr>listener_id = ''log'', callback = ''onLog''\<rparr>
          exampleCache) storeKey
     = [\<lparr>listener_id = ''ui'', callback = ''onStore''\<rparr>, \<lparr>listener_id = ''log'', callback = ''onLog''\<rparr>]
   \<and> listenersOf (fold (addListenerForResource storeKey)
          [\<lparr>listener_id = ''b'', callback = ''onB''\<rparr>, \<lparr>listener_id = ''a'', callback = ''onA''\<rparr>]
          (new_AptosResourceCache exampleClient exampleRepo)) storeKey
     = [\<lparr>listener_id = ''b'', callback = ''onB''\<rparr>, \<lparr>listener_id = ''a'', callback = ''onA''\<rparr>]
   \<and> snd (updateResource storeKey (BigInteger 1)
          (addListenerForResource storeKey \<lparr>listener_id = ''log'', callback = ''onLog''\<rparr> exampleCache))
     = [(''onStore'', update, Some (BigInteger 1)), (''onLog'', update, Some (BigInteger 1))]
   \<and> snd (deleteResource storeKey
          (addListenerForResource storeKey \<lparr>listener_id = ''log'', callback = ''onLog''\<rparr> exampleCache))
     = [(''onStore'', delete, None), (''onLog'', delete, None)]"
proof -
  let ?ui = "\<lparr>listener_id = ''ui'', callback = ''onStore''\<rparr>"
  let ?log = "\<lparr>listener_id = ''log'', callback = ''onLog''\<rparr>"
  let ?new = "new_AptosResourceCache exampleClient exampleRepo :: string AptosResourceCache"
  have reg: "updateListener exampleCache storeKey = Some [?ui]"
    by (simp add: exampleCache_def)
  have ls: "listenersOf exampleCache storeKey = [?ui]"
    by (simp add: listenersOf_def exampleCache_def)
  have none: "listenersOf ?new storeKey = []"
    by (simp add: listenersOf_def new_AptosResourceCache_def)
  show ?thesis
    using listener_dedup_and_order [where c = exampleCache and resourceKey = storeKey
            and ls = "[?ui]" and listener = "\<lparr>listener_id = ''ui'', callback = ''other''\<rparr>"]
          listener_dedup_and_order [where c = exampleCache and resourceKey = storeKey
            and listener = ?log]
          listener_dedup_and_order [where c = ?new and resourceKey = storeKey
            and new = "[\<lparr>listener_id = ''b'', callback = ''onB''\<rparr>, \<lparr>listener_id = ''a'', callback = ''onA''\<rparr>]"]
          listener_dedup_and_order [where resourceKey = storeKey and v = "BigInteger 1"
            and c = "addListenerForResource storeKey ?log exampleCache"]
          reg ls none
    by simp
qed

section \<open>Raw values that are not objects\<close>

text \<open>
  Claim C7, for the raw values that the test of the code takes for no object. Let the
  \<open>typeof\<close> of the raw value differ from \<open>object\<close> -- it is a string, a number or a
  boolean (or a function, which no JSON text writes) -- and let the type tag be a struct
  tag that passes the identity checks against the schema. When the tag names the ASCII string type -- address \<open>0x1\<close> in short form,
  module \<open>ASCII\<close>, name \<open>String\<close> -- \<open>parseStructProto\<close> returns the raw value
  unchanged; for any other struct type it raises an error.
\<close>

theorem parseStructProto_not_object:
  assumes "typeof data \<noteq> ''object''"
    and "hex address = hex (moduleAddress struct)"
    and "modname = moduleName struct"
    and "sname = name struct"
  shows "(toShortString address = ''0x1'' \<and> modname = ''ASCII'' \<and> sname = ''String''
            \<longrightarrow> parseStructProto ext registry data (StructTag address modname sname typeParams) struct
                  = Inr (RawValue data))
       \<and> (\<not> (toShortString address = ''0x1'' \<and> modname = ''ASCII'' \<and> sname = ''String'')
            \<longrightarrow> parseStructProto ext registry data (StructTag address modname sname typeParams) struct
                  = Inl (ExpectsObject (typeof data)))"
  using assms by (simp add: parseStructProto.simps)

theorem parseStructProto_not_object_witness:
  "parseStructProto exampleExt exampleRepo (JStr ''hello'')
       (StructTag (HexString ''0x1'') ''ASCII'' ''String'' []) AsciiString
     = Inr (RawValue (JStr ''hello''))
   \<and> parseStructProto exampleExt exampleRepo (JStr ''hello'')
       (StructTag (HexString ''0x1'') ''Coin'' ''Store'' [Atomic U64]) CoinStore
     = Inl (ExpectsObject ''string'')"
proof -
  have t: "typeof (JStr ''hello'') \<noteq> ''object''" by simp
  have a: "hex (HexString ''0x1'') = hex (moduleAddress AsciiString)"
      "''ASCII'' = moduleName AsciiString" "''String'' = name AsciiString"
    by (simp_all add: AsciiString_def)
  have b: "hex (HexString ''0x1'') = hex (moduleAddress CoinStore)"
      "''Coin'' = moduleName CoinStore" "''Store'' = name CoinStore"
    by (simp_all add: CoinStore_def)
  show ?thesis
    using parseStructProto_not_object [OF t a, where ext = exampleExt and registry = exampleRepo
            and typeParams = "[]"]
          parseStructProto_not_object [OF t b, where ext = exampleExt and registry = exampleRepo
            and typeParams = "[Atomic U64]"]
    by (simp add: toShortString_def startsWith_def)
qed



text \<open>
  Claim C7 does not hold for every raw value that is no object: \<open>null\<close> is none, but
  \<open>typeof\<close> answers \<open>object\<close> for it. Against the ASCII string type, whose schema declares
  the field \<open>bytes\<close>, \<open>null\<close> passes the identity checks and the \<open>typeof\<close> test and
  reaches the field loop, where the \<open>in\<close> operator raises a TypeError: the raw value is
  not returned.
\<close>

theorem parseStructProto_null_counterexample:
  "hex (HexString ''0x1'') = hex (moduleAddress AsciiString)
   \<and> ''ASCII'' = moduleName AsciiString \<and> ''String'' = name AsciiString
   \<and> toShortString (HexString ''0x1'') = ''0x1''
   \<and> typeof JNull = ''object''
   \<and> parseStructProto exampleExt exampleRepo JNull
         (StructTag (HexString ''0x1'') ''ASCII'' ''String'' []) AsciiString
       = Inl TypeError
   \<and> parseStructProto exampleExt exampleRepo JNull
         (StructTag (HexString ''0x1'') ''ASCII'' ''String'' []) AsciiString
       \<noteq> Inr (RawValue JNull)"
  by (simp add: AsciiString_def parseStructProto.simps toShortString_def startsWith_def
        hasPropertyRaises_def)

section \<open>The vector parser\<close>

lemma hexPairsToBytes_pairs:
  "\<forall>p\<in>set digits. hexDigit (fst p) \<noteq> None \<and> hexDigit (snd p) \<noteq> None \<Longrightarrow>
   hexPairsToBytes (concat (map (\<lambda>p. [fst p, snd p]) digits))
     = map (\<lambda>p. 16 * the (hexDigit (fst p)) + the (hexDigit (snd p))) digits"
  by (induction digits) auto

lemma wellFormedHex_pairs:
  "\<forall>p\<in>set digits. hexDigit (fst p) \<noteq> None \<and> hexDigit (snd p) \<noteq> None \<Longrightarrow>
   wellFormedHex (concat (map (\<lambda>p. [fst p, snd p]) digits))"
  by (induction digits) (auto simp: wellFormedHex_def)

lemma toUint8Array_pairs:
  "\<forall>p\<in>set digits. hexDigit (fst p) \<noteq> None \<and> hexDigit (snd p) \<noteq> None \<Longrightarrow>
   toUint8Array ext (HexString (CHR ''0'' # CHR ''x'' # concat (map (\<lambda>p. [fst p, snd p]) digits)))
     = map (\<lambda>p. 16 * the (hexDigit (fst p)) + the (hexDigit (snd p))) digits"
  by (simp add: toUint8Array_def noPrefix_def wellFormedHex_pairs hexPairsToBytes_pairs)

lemma parseElements_all:
  "\<forall>x\<in>set xs. \<exists>v. callParser ext rp p x t = Inr v \<Longrightarrow>
   parseElements ext rp p t xs = Inr (map (\<lambda>x. projr (callParser ext rp p x t)) xs)"
  by (induction xs) auto

lemma parseElements_first_error:
  "\<forall>x\<in>set ok. \<exists>v. callParser ext rp p x t = Inr v \<Longrightarrow>
   callParser ext rp p bad t = Inl e \<Longrightarrow>
   parseElements ext rp p t (ok @ bad # rest) = Inl e"
  by (induction ok) auto

lemma VectorParser_u8:
  "VectorParser ext rp data (VectorTag (Atomic U8)) =
     (case parseVectorU8 ext data of
        Inl e \<Rightarrow> Inl e
      | Inr u8array \<Rightarrow> Inr (ArrayValue (map (\<lambda>b. NumberValue (of_nat b)) u8array)))"
  by (simp add: VectorParser.simps)

lemma VectorParser_other:
  "elementType \<noteq> Atomic U8 \<Longrightarrow>
   VectorParser ext rp (JArr xs) (VectorTag elementType) =
     (case getParserFromParamlessName rp (getTypeTagParamlessName elementType) of
        None \<Rightarrow> Inl (NoElementParser (getTypeTagParamlessName elementType))
      | Some elementParser \<Rightarrow>
          (case parseElements ext rp elementParser elementType xs of
             Inl e \<Rightarrow> Inl e
           | Inr vector \<Rightarrow> Inr (ArrayValue vector)))"
  by (simp add: VectorParser.simps)

text \<open>
  Claim C6. For the type tag \<open>vector<u8>\<close> the vector parser accepts only a string that
  starts with \<open>0x\<close>: it returns the bytes that \<open>toUint8Array\<close> gives for the string, as an
  array of numbers -- for a string made of the prefix and pairs of hexadecimal digits,
  the bytes that the digits write: one byte per pair, sixteen times the first digit plus
  the second. It raises an error for a raw value that is no string and for a string
  without the prefix. What it answers does not depend on the registry, nor on anything
  from outside but the bytes of a malformed string, so no element parser is looked up or
  called. For any other element type the raw value must be an array; the
  parser of the element type is looked up in the registry by paramless name, its absence
  is an error, and every element is decoded with it in order: the result is the array of
  the decoded elements, or the error of the first element that fails.
\<close>

theorem VectorParser_bytes_and_elements:
  "(startsWith s ''0x'' \<longrightarrow>
      VectorParser ext registry (JStr s) (VectorTag (Atomic U8))
        = Inr (ArrayValue (map (\<lambda>b. NumberValue (of_nat b)) (toUint8Array ext (HexString s)))))
   \<and> ((\<forall>p\<in>set digits. hexDigit (fst p) \<noteq> None \<and> hexDigit (snd p) \<noteq> None) \<longrightarrow>
      VectorParser ext registry (JStr (''0x'' @ concat (map (\<lambda>p. [fst p, snd p]) digits)))
          (VectorTag (Atomic U8))
        = Inr (ArrayValue (map (\<lambda>p. NumberValue
                 (of_nat (16 * the (hexDigit (fst p)) + the (hexDigit (snd p))))) digits)))
   \<and> (\<not> startsWith s ''0x'' \<longrightarrow>
      VectorParser ext registry (JStr s) (VectorTag (Atomic U8)) = Inl VectorU8NoPrefix)
   \<and> ((\<forall>str. data \<noteq> JStr str) \<longrightarrow>
      VectorParser ext registry data (VectorTag (Atomic U8))
        = Inl (UnexpectedDataType (typeof data)))
   \<and> (bytesOfMalformedHex ext' = bytesOfMalformedHex ext \<longrightarrow>
      VectorParser ext registry data (VectorTag (Atomic U8))
        = VectorParser ext' registry' data (VectorTag (Atomic U8)))
   \<and> (elementType \<noteq> Atomic U8 \<and> (\<forall>elements. data \<noteq> JArr elements) \<longrightarrow>
      VectorParser ext registry data (VectorTag elementType)
        = Inl (UnexpectedDataType (typeof data)))
   \<and> (elementType \<noteq> Atomic U8
       \<and> getParserFromParamlessName registry (getTypeTagParamlessName elementType) = None \<longrightarrow>
      VectorParser ext registry (JArr elements) (VectorTag elementType)
        = Inl (NoElementParser (getTypeTagParamlessName elementType)))
   \<and> (elementType \<noteq> Atomic U8
       \<and> getParserFromParamlessName registry (getTypeTagParamlessName elementType)
           = Some elementParser
       \<and> (\<forall>x\<in>set elements. \<exists>v. callParser ext registry elementParser x elementType = Inr v) \<longrightarrow>
      VectorParser ext registry (JArr elements) (VectorTag elementType)
        = Inr (ArrayValue
                (map (\<lambda>x. projr (callParser ext registry elementParser x elementType)) elements)))
   \<and> (elementType \<noteq> Atomic U8
       \<and> getParserFromParamlessName registry (getTypeTagParamlessName elementType)
           = Some elementParser
       \<and> (\<forall>x\<in>set ok. \<exists>v. callParser ext registry elementParser x elementType = Inr v)
       \<and> callParser ext registry elementParser bad elementType = Inl e \<longrightarrow>
      VectorParser ext registry (JArr (ok @ bad # rest)) (VectorTag elementType) = Inl e)"
proof -
  have bytes: "startsWith s ''0x'' \<longrightarrow>
      VectorParser ext registry (JStr s) (VectorTag (Atomic U8))
        = Inr (ArrayValue (map (\<lambda>b. NumberValue (of_nat b)) (toUint8Array ext (HexString s))))"
    by (simp add: VectorParser_u8 parseVectorU8_def new_HexString_def)
  have pre: "startsWith (CHR ''0'' # CHR ''x'' # t) ''0x''" for t
    by (simp add: startsWith_def)
  have digits: "(\<forall>p\<in>set digits. hexDigit (fst p) \<noteq> None \<and> hexDigit (snd p) \<noteq> None) \<longrightarrow>
      VectorParser ext registry (JStr (''0x'' @ concat (map (\<lambda>p. [fst p, snd p]) digits)))
          (VectorTag (Atomic U8))
        = Inr (ArrayValue (map (\<lambda>p. NumberValue
                 (of_nat (16 * the (hexDigit (fst p)) + the (hexDigit (snd p))))) digits))"
    by (simp add: VectorParser_u8 parseVectorU8_def new_HexString_def pre toUint8Array_pairs
          comp_def)
  have noprefix: "\<not> startsWith s ''0x'' \<longrightarrow>
      VectorParser ext registry (JStr s) (VectorTag (Atomic U8)) = Inl VectorU8NoPrefix"
    by (simp add: VectorParser_u8 parseVectorU8_def)
  have nostring: "(\<forall>str. data \<noteq> JStr str) \<longrightarrow>
      VectorParser ext registry data (VectorTag (Atomic U8))
        = Inl (UnexpectedDataType (typeof data))"
    by (cases data) (simp_all add: VectorParser_u8 parseVectorU8_def)
  have indep: "bytesOfMalformedHex ext' = bytesOfMalformedHex ext \<longrightarrow>
      VectorParser ext registry data (VectorTag (Atomic U8))
        = VectorParser ext' registry' data (VectorTag (Atomic U8))"
    by (cases data) (simp_all add: VectorParser_u8 parseVectorU8_def toUint8Array_def)
  have noarray: "elementType \<noteq> Atomic U8 \<and> (\<forall>elements. data \<noteq> JArr elements) \<longrightarrow>
      VectorParser ext registry data (VectorTag elementType)
        = Inl (UnexpectedDataType (typeof data))"
    by (cases data) (simp_all add: VectorParser.simps)
  have noparser: "elementType \<noteq> Atomic U8
       \<and> getParserFromParamlessName registry (getTypeTagParamlessName elementType) = None \<longrightarrow>
      VectorParser ext registry (JArr elements) (VectorTag elementType)
        = Inl (NoElementParser (getTypeTagParamlessName elementType))"
    by (simp add: VectorParser_other)
  have each: "elementType \<noteq> Atomic U8
       \<and> getParserFromParamlessName registry (getTypeTagParamlessName elementType)
           = Some elementParser
       \<and> (\<forall>x\<in>set elements. \<exists>v. callParser ext registry elementParser x elementType = Inr v) \<longrightarrow>
      VectorParser ext registry (JArr elements) (VectorTag elementType)
        = Inr (ArrayValue
                (map (\<lambda>x. projr (callParser ext registry elementParser x elementType)) elements))"
    by (simp add: VectorParser_other parseElements_all)
  have first: "elementType \<noteq> Atomic U8
       \<and> getParserFromParamlessName registry (getTypeTagParamlessName elementType)
           = Some elementParser
       \<and> (\<forall>x\<in>set ok. \<exists>v. callParser ext registry elementParser x elementType = Inr v)
       \<and> callParser ext registry elementParser bad elementType = Inl e \<longrightarrow>
      VectorParser ext registry (JArr (ok @ bad # rest)) (VectorTag elementType) = Inl e"
    by (simp add: VectorParser_other parseElements_first_error)
  from bytes digits noprefix nostring indep noarray noparser each first
  show ?thesis by blast
qed


lemma example_u64_elements:
  "callParser exampleExt exampleRepo Fn_U64Parser (JStr ''1'') (Atomic U64) = Inr (BigInteger 1)"
  "callParser exampleExt exampleRepo Fn_U64Parser (JStr ''20'') (Atomic U64) = Inr (BigInteger 20)"
  "callParser exampleExt exampleRepo Fn_U64Parser (JNum 2) (Atomic U64)
     = Inl (UnexpectedDataType ''number'')"
  by (simp_all add: example_defs decode_defs)

lemma example_u64_parser:
  "getParserFromParamlessName exampleRepo (getTypeTagParamlessName (Atomic U64)) = Some Fn_U64Parser"
  "getParserFromParamlessName \<lparr>paramlessNameToParser = Map.empty\<rparr>
     (getTypeTagParamlessName (Atomic U64)) = None"
  by (simp_all add: example_defs decode_defs)

theorem VectorParser_bytes_and_elements_witness:
  "VectorParser exampleExt exampleRepo (JStr ''0x0aFf'') (VectorTag (Atomic U8))
     = Inr (ArrayValue [NumberValue 10, NumberValue 255])
   \<and> VectorParser exampleExt exampleRepo (JStr ''0aff'') (VectorTag (Atomic U8))
     = Inl VectorU8NoPrefix
   \<and> VectorParser exampleExt exampleRepo (JArr [JNum 10, JNum 255]) (VectorTag (Atomic U8))
     = Inl (UnexpectedDataType ''object'')
   \<and> VectorParser exampleExt exampleRepo (JStr ''0x0aFf'') (VectorTag (Atomic U8))
     = VectorParser exampleExt \<lparr>paramlessNameToParser = Map.empty\<rparr> (JStr ''0x0aFf'')
         (VectorTag (Atomic U8))
   \<and> VectorParser exampleExt exampleRepo (JStr ''0x0aFf'') (VectorTag (Atomic U64))
     = Inl (UnexpectedDataType ''string'')
   \<and> VectorParser exampleExt \<lparr>paramlessNameToParser = Map.empty\<rparr> (JArr [JStr ''1'', JStr ''20''])
         (VectorTag (Atomic U64))
     = Inl (NoElementParser ''u64'')
   \<and> VectorParser exampleExt exampleRepo (JArr [JStr ''1'', JStr ''20'']) (VectorTag (Atomic U64))
     = Inr (ArrayValue [BigInteger 1, BigInteger 20])
   \<and> VectorParser exampleExt exampleRepo (JArr [JStr ''1'', JNum 2, JStr ''x''])
         (VectorTag (Atomic U64))
     = Inl (UnexpectedDataType ''number'')"
proof -
  have prefix: "startsWith ''0x0aFf'' ''0x''" "\<not> startsWith ''0aff'' ''0x''"
    by (simp_all add: startsWith_def)
  have hexd: "\<forall>p\<in>set [(CHR ''0'', CHR ''a''), (CHR ''F'', CHR ''f'')].
                hexDigit (fst p) \<noteq> None \<and> hexDigit (snd p) \<noteq> None"
    by (simp add: hexDigit_def)
  have vals: "the (hexDigit CHR ''0'') = 0" "the (hexDigit CHR ''a'') = 10"
      "the (hexDigit CHR ''F'') = 15" "the (hexDigit CHR ''f'') = 15"
    by (simp_all add: hexDigit_def)
  have ne: "Atomic U64 \<noteq> Atomic U8" by simp
  have all: "\<forall>x\<in>set [JStr ''1'', JStr ''20''].
               \<exists>v. callParser exampleExt exampleRepo Fn_U64Parser x (Atomic U64) = Inr v"
    by (simp add: example_u64_elements)
  have ok: "\<forall>x\<in>set [JStr ''1''].
               \<exists>v. callParser exampleExt exampleRepo Fn_U64Parser x (Atomic U64) = Inr v"
    by (simp add: example_u64_elements)
  note inst = VectorParser_bytes_and_elements [where ext = exampleExt and elementType = "Atomic U64"]
  have c1: "VectorParser exampleExt exampleRepo (JStr ''0x0aFf'') (VectorTag (Atomic U8))
     = Inr (ArrayValue [NumberValue 10, NumberValue 255])"
    using inst [where registry = exampleRepo
            and digits = "[(CHR ''0'', CHR ''a''), (CHR ''F'', CHR ''f'')]"] hexd
    by (simp add: vals)
  have c2: "VectorParser exampleExt exampleRepo (JStr ''0aff'') (VectorTag (Atomic U8))
     = Inl VectorU8NoPrefix"
    using inst [where registry = exampleRepo and s = "''0aff''"] prefix by simp
  have c3: "VectorParser exampleExt exampleRepo (JArr [JNum 10, JNum 255]) (VectorTag (Atomic U8))
     = Inl (UnexpectedDataType ''object'')"
    using inst [where registry = exampleRepo and data = "JArr [JNum 10, JNum 255]"] by simp
  have c4: "VectorParser exampleExt exampleRepo (JStr ''0x0aFf'') (VectorTag (Atomic U8))
     = VectorParser exampleExt \<lparr>paramlessNameToParser = Map.empty\<rparr> (JStr ''0x0aFf'')
         (VectorTag (Atomic U8))"
    using inst [where registry = exampleRepo and data = "JStr ''0x0aFf''" and ext' = exampleExt
            and registry' = "\<lparr>paramlessNameToParser = Map.empty\<rparr>"] by blast
  have c5: "VectorParser exampleExt exampleRepo (JStr ''0x0aFf'') (VectorTag (Atomic U64))
     = Inl (UnexpectedDataType ''string'')"
    using inst [where registry = exampleRepo and data = "JStr ''0x0aFf''"] by simp
  have c6: "VectorParser exampleExt \<lparr>paramlessNameToParser = Map.empty\<rparr> (JArr [JStr ''1'', JStr ''20''])
         (VectorTag (Atomic U64))
     = Inl (NoElementParser ''u64'')"
    using inst [where registry = "\<lparr>paramlessNameToParser = Map.empty\<rparr>"
            and elements = "[JStr ''1'', JStr ''20'']"] example_u64_parser(2)
    by (simp add: atomicName_def)
  have c7: "VectorParser exampleExt exampleRepo (JArr [JStr ''1'', JStr ''20'']) (VectorTag (Atomic U64))
     = Inr (ArrayValue [BigInteger 1, BigInteger 20])"
    using inst [where registry = exampleRepo and elementParser = Fn_U64Parser
            and elements = "[JStr ''1'', JStr ''20'']"] example_u64_parser(1) all
    by (simp add: example_u64_elements)
  have c8: "VectorParser exampleExt exampleRepo (JArr [JStr ''1'', JNum 2, JStr ''x''])
         (VectorTag (Atomic U64))
     = Inl (UnexpectedDataType ''number'')"
    using inst [where registry = exampleRepo and elementParser = Fn_U64Parser
            and ok = "[JStr ''1'']" and bad = "JNum 2" and rest = "[JStr ''x'']"
            and e = "UnexpectedDataType ''number''"] example_u64_parser(1) ok
          example_u64_elements(3)
    by simp
  from c1 c2 c3 c4 c5 c6 c7 c8 show ?thesis by blast
qed

section \<open>The field types of parseStructProto\<close>

lemma parseFields_later:
  "parseFields ext rp data tps post proto = Inr result \<Longrightarrow>
   \<exists>final. result = ProtoObject final
     \<and> (\<forall>k. k \<notin> fieldName ` set post \<longrightarrow> map_of final k = map_of proto k)"
proof (induction post arbitrary: proto)
  case Nil
  then show ?case by auto
next
  case (Cons f post)
  from Cons.prems obtain v where
    rest: "parseFields ext rp data tps post (AList.update (fieldName f) v proto) = Inr result"
    by (auto split: if_splits option.splits sum.splits)
  from Cons.IH [OF rest] show ?case
    by (auto simp: update_conv')
qed

lemma parseFields_field:
  "parseFields ext rp data tps (pre @ f # post) proto = Inr result \<Longrightarrow>
   \<exists>ft parser raw v.
       fieldTypeTagOf f tps = Some ft
     \<and> getParserFromTypeTag rp ft = Some parser
     \<and> getProperty ext data (fieldName f) = Some raw
     \<and> callParser ext rp parser raw ft = Inr v
     \<and> (\<exists>final. result = ProtoObject final
           \<and> (fieldName f \<notin> fieldName ` set post \<longrightarrow> map_of final (fieldName f) = Some v))"
proof (induction pre arbitrary: proto)
  case Nil
  from Nil obtain ft parser raw v where
    a: "fieldTypeTagOf f tps = Some ft" "getParserFromTypeTag rp ft = Some parser"
       "getProperty ext data (fieldName f) = Some raw" "callParser ext rp parser raw ft = Inr v"
    and rest: "parseFields ext rp data tps post (AList.update (fieldName f) v proto) = Inr result"
    by (auto split: if_splits option.splits sum.splits)
  from parseFields_later [OF rest] obtain final where
    "result = ProtoObject final"
    "\<forall>k. k \<notin> fieldName ` set post \<longrightarrow> map_of final k = map_of (AList.update (fieldName f) v proto) k"
    by blast
  with a show ?case by (auto simp: update_conv')
next
  case (Cons g pre)
  from Cons.prems obtain v where
    "parseFields ext rp data tps (pre @ f # post) (AList.update (fieldName g) v proto) = Inr result"
    by (auto split: if_splits option.splits sum.splits)
  from Cons.IH [OF this] show ?case .
qed

lemma parseFields_append:
  "parseFields ext rp data tps pre proto = Inr (ProtoObject q) \<Longrightarrow>
   parseFields ext rp data tps (pre @ rest) proto = parseFields ext rp data tps rest q"
proof (induction pre arbitrary: proto)
  case Nil
  then show ?case by simp
next
  case (Cons g pre)
  from Cons.prems obtain raw ft parser v where
    a: "\<not> hasPropertyRaises data" "getProperty ext data (fieldName g) = Some raw"
       "fieldTypeTagOf g tps = Some ft" "getParserFromTypeTag rp ft = Some parser"
       "callParser ext rp parser raw ft = Inr v"
    and more: "parseFields ext rp data tps pre (AList.update (fieldName g) v proto)
                 = Inr (ProtoObject q)"
    by (auto split: if_splits option.splits sum.splits)
  from Cons.IH [OF more] a show ?case by simp
qed

lemma getProperty_no_raise:
  "getProperty ext data k = Some raw \<Longrightarrow> \<not> hasPropertyRaises data"
  by (cases data) (simp_all add: hasPropertyRaises_def)

lemma fieldTypeTagOf_resolved:
  "(\<exists>i. typeTag f = TypeParamIdx i \<and> i < length tps \<and> ft = tps ! i)
     \<or> ((\<forall>i. typeTag f \<noteq> TypeParamIdx i) \<and> ft = typeTag f) \<Longrightarrow>
   fieldTypeTagOf f tps = Some ft"
  by (auto simp: fieldTypeTagOf_def split: TypeTag.splits)

lemma default_u64_parser:
  "getParserFromTypeTag (addDefaultParsers r) (Atomic U64) = Some Fn_U64Parser"
  by (simp add: getParserFromTypeTag_def getParserFromParamlessName_def addDefaultParsers_def
        addParser_def atomicName_def)

text \<open>
  Claim C2. Let the concrete tag be a struct tag that passes the identity checks of the
  schema and let the raw value be an object. Take a declared field that the raw value
  has, the fields declared before it being decoded without an error, and let the type of
  the field be the entry at index \<open>i\<close> of the tag's type parameters when the field is
  declared as \<open>TypeParamIdx i\<close> and the tag has an entry there, and the declared type as it
  is when the field is declared with any other type. Then \<open>parseStructProto\<close> decodes the
  field with that type: it looks up the parser that the registry holds for the paramless
  name of the type -- its absence is an error --, calls it on the field's raw value with
  that type, raises the error that the parser raises, and otherwise stores what the parser
  returns under the name of the field and goes on with the fields declared after it. With
  the default parsers registered and \<open>U64\<close> as the type, the parser called is \<open>U64Parser\<close>:
  the field is not passed through undecoded, and a raw value that \<open>U64Parser\<close> rejects
  makes the whole decode fail. When \<open>parseStructProto\<close> returns a result, the value of the
  field in it is what the parser returned (for a field name that no later declaration
  repeats).
\<close>

theorem parseStructProto_field_type:
  assumes "hex address = hex (moduleAddress struct)"
    and "modname = moduleName struct"
    and "sname = name struct"
    and "typeof data = ''object''"
    and "structFields struct = pre @ fieldDecl # post"
    and "parseFields ext registry data typeParams pre [] = Inr (ProtoObject proto)"
    and "getProperty ext data (fieldName fieldDecl) = Some raw"
    and "(\<exists>i. typeTag fieldDecl = TypeParamIdx i \<and> i < length typeParams
              \<and> fieldTypeTag = typeParams ! i)
         \<or> ((\<forall>i. typeTag fieldDecl \<noteq> TypeParamIdx i) \<and> fieldTypeTag = typeTag fieldDecl)"
  shows "parseStructProto ext registry data (StructTag address modname sname typeParams) struct
          = (case getParserFromTypeTag registry fieldTypeTag of
               None \<Rightarrow> Inl (NoFieldParser (fieldName fieldDecl))
             | Some parser \<Rightarrow>
                 (case callParser ext registry parser raw fieldTypeTag of
                    Inl e \<Rightarrow> Inl e
                  | Inr parsedValue \<Rightarrow>
                      parseFields ext registry data typeParams post
                        (AList.update (fieldName fieldDecl) parsedValue proto)))
       \<and> (fieldTypeTag = Atomic U64 \<and> (\<exists>r. registry = addDefaultParsers r) \<longrightarrow>
            parseStructProto ext registry data (StructTag address modname sname typeParams) struct
              = (case U64Parser ext raw (Atomic U64) of
                   Inl e \<Rightarrow> Inl e
                 | Inr parsedValue \<Rightarrow>
                     parseFields ext registry data typeParams post
                       (AList.update (fieldName fieldDecl) parsedValue proto)))
       \<and> (\<forall>result.
            parseStructProto ext registry data (StructTag address modname sname typeParams) struct
              = Inr result \<longrightarrow>
            (\<exists>parser parsedValue final.
                getParserFromTypeTag registry fieldTypeTag = Some parser
              \<and> callParser ext registry parser raw fieldTypeTag = Inr parsedValue
              \<and> result = ProtoObject final
              \<and> (fieldName fieldDecl \<notin> fieldName ` set post
                   \<longrightarrow> map_of final (fieldName fieldDecl) = Some parsedValue)))"
proof -
  let ?whole = "parseStructProto ext registry data (StructTag address modname sname typeParams)
                  struct"
  let ?decoded = "case getParserFromTypeTag registry fieldTypeTag of
               None \<Rightarrow> Inl (NoFieldParser (fieldName fieldDecl))
             | Some parser \<Rightarrow>
                 (case callParser ext registry parser raw fieldTypeTag of
                    Inl e \<Rightarrow> Inl e
                  | Inr parsedValue \<Rightarrow>
                      parseFields ext registry data typeParams post
                        (AList.update (fieldName fieldDecl) parsedValue proto))"
  have fields: "?whole = parseFields ext registry data typeParams (pre @ fieldDecl # post) []"
    using assms(1-5) by (simp add: parseStructProto.simps)
  have ft: "fieldTypeTagOf fieldDecl typeParams = Some fieldTypeTag"
    using assms(8) by (rule fieldTypeTagOf_resolved)
  have step: "parseFields ext registry data typeParams (fieldDecl # post) proto = ?decoded"
    using ft assms(7) getProperty_no_raise [OF assms(7)] by simp
  have progress: "?whole = ?decoded"
    using fields parseFields_append [OF assms(6), of "fieldDecl # post"] step by simp
  have u64: "fieldTypeTag = Atomic U64 \<and> (\<exists>r. registry = addDefaultParsers r) \<longrightarrow>
            ?whole = (case U64Parser ext raw (Atomic U64) of
                   Inl e \<Rightarrow> Inl e
                 | Inr parsedValue \<Rightarrow>
                     parseFields ext registry data typeParams post
                       (AList.update (fieldName fieldDecl) parsedValue proto))"
  proof
    assume a: "fieldTypeTag = Atomic U64 \<and> (\<exists>r. registry = addDefaultParsers r)"
    then have "getParserFromTypeTag registry fieldTypeTag = Some Fn_U64Parser"
      by (auto simp: default_u64_parser)
    with progress a show "?whole = (case U64Parser ext raw (Atomic U64) of
                   Inl e \<Rightarrow> Inl e
                 | Inr parsedValue \<Rightarrow>
                     parseFields ext registry data typeParams post
                       (AList.update (fieldName fieldDecl) parsedValue proto))"
      by (simp add: callParser.simps)
  qed
  have result: "\<forall>result. ?whole = Inr result \<longrightarrow>
            (\<exists>parser parsedValue final.
                getParserFromTypeTag registry fieldTypeTag = Some parser
              \<and> callParser ext registry parser raw fieldTypeTag = Inr parsedValue
              \<and> result = ProtoObject final
              \<and> (fieldName fieldDecl \<notin> fieldName ` set post
                   \<longrightarrow> map_of final (fieldName fieldDecl) = Some parsedValue))"
  proof (intro allI impI)
    fix result
    assume "?whole = Inr result"
    with fields have
      "parseFields ext registry data typeParams (pre @ fieldDecl # post) [] = Inr result"
      by simp
    from parseFields_field [OF this] ft assms(7)
    show "\<exists>parser parsedValue final.
                getParserFromTypeTag registry fieldTypeTag = Some parser
              \<and> callParser ext registry parser raw fieldTypeTag = Inr parsedValue
              \<and> result = ProtoObject final
              \<and> (fieldName fieldDecl \<notin> fieldName ` set post
                   \<longrightarrow> map_of final (fieldName fieldDecl) = Some parsedValue)"
      by auto
  qed
  from progress u64 result show ?thesis by blast
qed

theorem parseStructProto_field_type_witness:
  "parseStructProto exampleExt exampleRepo (pairData (JBool True) (JStr ''42''))
       (StructTag (HexString ''0x1'') ''Pool'' ''Pool'' [Atomic Bool, Atomic U64]) Pool
     = Inr (ProtoObject [(''first'', BoolValue True), (''second'', BigInteger 42)])
   \<and> parseStructProto exampleExt exampleRepo (pairData (JBool True) (JNum 42))
       (StructTag (HexString ''0x1'') ''Pool'' ''Pool'' [Atomic Bool, Atomic U64]) Pool
     = Inl (UnexpectedDataType ''number'')
   \<and> parseStructProto exampleExt exampleRepo (storeData (JStr ''42''))
       (StructTag (HexString ''0x1'') ''Coin'' ''Store'' [Atomic U64]) CoinStore
     = Inr (ProtoObject [(''value'', BigInteger 42), (''frozen'', BoolValue False)])"
proof -
  let ?pair = "StructTag (HexString ''0x1'') ''Pool'' ''Pool'' [Atomic Bool, Atomic U64]"
  let ?store = "StructTag (HexString ''0x1'') ''Coin'' ''Store'' [Atomic U64]"
  let ?firstDecl = "\<lparr>fieldName = ''first'', typeTag = TypeParamIdx 0\<rparr>"
  let ?secondDecl = "\<lparr>fieldName = ''second'', typeTag = TypeParamIdx 1\<rparr>"
  let ?valueDecl = "\<lparr>fieldName = ''value'', typeTag = TypeParamIdx 0\<rparr>"
  let ?frozenDecl = "\<lparr>fieldName = ''frozen'', typeTag = Atomic Bool\<rparr>"
  have reg: "\<exists>r. exampleRepo = addDefaultParsers r"
    by (auto simp: exampleRepo_def)
  have boolp: "getParserFromTypeTag exampleRepo (Atomic Bool) = Some Fn_BoolParser"
    by (simp add: example_defs decode_defs)
  have pchecks: "hex (HexString ''0x1'') = hex (moduleAddress Pool)"
      "''Pool'' = moduleName Pool" "''Pool'' = name Pool"
    by (simp_all add: Pool_def)
  have pobj: "typeof (pairData (JBool True) d) = ''object''" for d
    by (simp add: pairData_def)
  have pfields: "structFields Pool = [?firstDecl] @ ?secondDecl # []"
    by (simp add: Pool_def)
  have ppre: "parseFields exampleExt exampleRepo (pairData (JBool True) d)
                [Atomic Bool, Atomic U64] [?firstDecl] []
              = Inr (ProtoObject [(''first'', BoolValue True)])" for d
    by (simp add: pairData_def hasPropertyRaises_def fieldTypeTagOf_def boolp callParser.simps
          BoolParser_def)
  have praw: "getProperty exampleExt (pairData (JBool True) d) (fieldName ?secondDecl) = Some d"
    for d
    by (simp add: pairData_def)
  have pidx: "(\<exists>i. typeTag ?secondDecl = TypeParamIdx i \<and> i < length [Atomic Bool, Atomic U64]
                  \<and> Atomic U64 = [Atomic Bool, Atomic U64] ! i)
         \<or> ((\<forall>i. typeTag ?secondDecl \<noteq> TypeParamIdx i) \<and> Atomic U64 = typeTag ?secondDecl)"
    by simp
  have good: "parseStructProto exampleExt exampleRepo (pairData (JBool True) (JStr ''42'')) ?pair
                Pool
              = Inr (ProtoObject [(''first'', BoolValue True), (''second'', BigInteger 42)])"
  proof -
    from parseStructProto_field_type [OF pchecks pobj [of "JStr ''42''"] pfields
            ppre [of "JStr ''42''"] praw [of "JStr ''42''"] pidx] reg
    have "parseStructProto exampleExt exampleRepo (pairData (JBool True) (JStr ''42'')) ?pair Pool
            = (case U64Parser exampleExt (JStr ''42'') (Atomic U64) of
                 Inl e \<Rightarrow> Inl e
               | Inr parsedValue \<Rightarrow>
                   parseFields exampleExt exampleRepo (pairData (JBool True) (JStr ''42''))
                     [Atomic Bool, Atomic U64] []
                     (AList.update (fieldName ?secondDecl) parsedValue
                        [(''first'', BoolValue True)]))"
      by blast
    also have "U64Parser exampleExt (JStr ''42'') (Atomic U64) = Inr (BigInteger 42)"
      by (simp add: U64Parser_def exampleExt_def decimalBigInt_def)
    finally show ?thesis by simp
  qed
  have bad: "parseStructProto exampleExt exampleRepo (pairData (JBool True) (JNum 42)) ?pair Pool
              = Inl (UnexpectedDataType ''number'')"
  proof -
    from parseStructProto_field_type [OF pchecks pobj [of "JNum 42"] pfields
            ppre [of "JNum 42"] praw [of "JNum 42"] pidx] reg
    have "parseStructProto exampleExt exampleRepo (pairData (JBool True) (JNum 42)) ?pair Pool
            = (case U64Parser exampleExt (JNum 42) (Atomic U64) of
                 Inl e \<Rightarrow> Inl e
               | Inr parsedValue \<Rightarrow>
                   parseFields exampleExt exampleRepo (pairData (JBool True) (JNum 42))
                     [Atomic Bool, Atomic U64] []
                     (AList.update (fieldName ?secondDecl) parsedValue
                        [(''first'', BoolValue True)]))"
      by blast
    also have "U64Parser exampleExt (JNum 42) (Atomic U64) = Inl (UnexpectedDataType ''number'')"
      by (simp add: U64Parser_def)
    finally show ?thesis by simp
  qed
  have schecks: "hex (HexString ''0x1'') = hex (moduleAddress CoinStore)"
      "''Coin'' = moduleName CoinStore" "''Store'' = name CoinStore"
      "typeof (storeData (JStr ''42'')) = ''object''"
    by (simp_all add: CoinStore_def storeData_def)
  have sfields: "structFields CoinStore = [?valueDecl] @ ?frozenDecl # []"
    by (simp add: CoinStore_def)
  have spre: "parseFields exampleExt exampleRepo (storeData (JStr ''42'')) [Atomic U64]
                [?valueDecl] []
              = Inr (ProtoObject [(''value'', BigInteger 42)])"
    by (simp add: storeData_def hasPropertyRaises_def fieldTypeTagOf_def default_u64_parser
          exampleRepo_def callParser.simps U64Parser_def exampleExt_def decimalBigInt_def)
  have sraw: "getProperty exampleExt (storeData (JStr ''42'')) (fieldName ?frozenDecl)
                = Some (JBool False)"
    by (simp add: storeData_def)
  have sdecl: "(\<exists>i. typeTag ?frozenDecl = TypeParamIdx i \<and> i < length [Atomic U64]
                  \<and> Atomic Bool = [Atomic U64] ! i)
         \<or> ((\<forall>i. typeTag ?frozenDecl \<noteq> TypeParamIdx i) \<and> Atomic Bool = typeTag ?frozenDecl)"
    by simp
  have store: "parseStructProto exampleExt exampleRepo (storeData (JStr ''42'')) ?store CoinStore
              = Inr (ProtoObject [(''value'', BigInteger 42), (''frozen'', BoolValue False)])"
  proof -
    from parseStructProto_field_type [OF schecks sfields spre sraw sdecl]
    have "parseStructProto exampleExt exampleRepo (storeData (JStr ''42'')) ?store CoinStore
            = (case getParserFromTypeTag exampleRepo (Atomic Bool) of
                 None \<Rightarrow> Inl (NoFieldParser (fieldName ?frozenDecl))
               | Some parser \<Rightarrow>
                   (case callParser exampleExt exampleRepo parser (JBool False) (Atomic Bool) of
                      Inl e \<Rightarrow> Inl e
                    | Inr parsedValue \<Rightarrow>
                        parseFields exampleExt exampleRepo (storeData (JStr ''42'')) [Atomic U64] []
                          (AList.update (fieldName ?frozenDecl) parsedValue
                             [(''value'', BigInteger 42)])))"
      by blast
    then show ?thesis
      by (simp add: boolp callParser.simps BoolParser_def)
  qed
  from good bad store show ?thesis by blast
qed


section \<open>loadAccount\<close>

lemma upsert_fields:
  "cachedResources (fst (upsert k v c)) = (cachedResources c)(k \<mapsto> v)"
  "updateListener (fst (upsert k v c)) = updateListener c"
  "resourceKeyToLoadParams (fst (upsert k v c)) = resourceKeyToLoadParams c"
  "watchedAddresses (fst (upsert k v c)) = watchedAddresses c"
  "client (fst (upsert k v c)) = client c"
  "repo (fst (upsert k v c)) = repo c"
  by (simp_all add: upsert_def updateResource_def)

lemma loadAccountLoop_Cons_skip:
  "parseTypeTagOrThrow ext (fst r) = Inr t \<Longrightarrow> parse ext (repo c) (snd r) t = Inl e \<Longrightarrow>
   loadAccountLoop ext address listener (r # rest) keys c
     = loadAccountLoop ext address listener rest keys c"
  by simp

lemma loadAccountLoop_Cons_ok:
  "parseTypeTagOrThrow ext (fst r) = Inr t \<Longrightarrow> parse ext (repo c) (snd r) t = Inr v \<Longrightarrow>
   loadAccountLoop ext address listener (r # rest) keys c
     = (case loadAccountLoop ext address listener rest (keys @ [getResourceKey address t])
               (addListenerIfGiven (getResourceKey address t) listener
                  (fst (upsert (getResourceKey address t) v c))) of
          (res, c3, notes') \<Rightarrow> (res, c3, snd (upsert (getResourceKey address t) v c) @ notes'))"
  by (simp add: Let_def split: prod.splits)

lemma loadAccountLoop_parsed:
  "\<forall>r\<in>set rs. \<not> isl (parseTypeTagOrThrow ext (fst r)) \<Longrightarrow>
   \<exists>c' ns.
      loadAccountLoop ext address listener rs keys c
        = (Inr (keys @ map (resourceKeyOf ext address)
                        (filter (\<lambda>r. \<not> isl (decodedOf ext (repo c) r)) rs)), c', ns)
    \<and> cachedResources c'
        = foldl (recordResource ext (repo c) address) (cachedResources c)
            (filter (\<lambda>r. \<not> isl (decodedOf ext (repo c) r)) rs)
    \<and> watchedAddresses c' = watchedAddresses c
    \<and> repo c' = repo c \<and> client c' = client c"
proof (induction rs arbitrary: keys c)
  case Nil
  then show ?case by simp
next
  case (Cons r rs)
  from Cons.prems obtain t where t: "parseTypeTagOrThrow ext (fst r) = Inr t"
    by (cases "parseTypeTagOrThrow ext (fst r)") auto
  from Cons.prems have tail: "\<forall>r\<in>set rs. \<not> isl (parseTypeTagOrThrow ext (fst r))"
    by simp
  show ?case
  proof (cases "parse ext (repo c) (snd r) t")
    case (Inl e)
    then have skip: "isl (decodedOf ext (repo c) r)"
      by (simp add: decodedOf_def t)
    from Cons.IH [OF tail, of keys c] skip show ?thesis
      by (simp add: loadAccountLoop_Cons_skip [OF t Inl] del: loadAccountLoop.simps)
  next
    case (Inr v)
    let ?k = "getResourceKey address t"
    let ?c2 = "addListenerIfGiven ?k listener (fst (upsert ?k v c))"
    let ?good = "filter (\<lambda>r. \<not> isl (decodedOf ext (repo c) r)) rs"
    have rp: "repo ?c2 = repo c"
      by (simp add: addListenerIfGiven_fields upsert_fields)
    from Cons.IH [OF tail, of "keys @ [?k]" ?c2] obtain c' ns where
      loop: "loadAccountLoop ext address listener rs (keys @ [?k]) ?c2
          = (Inr ((keys @ [?k]) @ map (resourceKeyOf ext address) ?good), c', ns)"
      and cache: "cachedResources c'
          = foldl (recordResource ext (repo c) address) (cachedResources ?c2) ?good"
      and rest: "watchedAddresses c' = watchedAddresses ?c2" "repo c' = repo ?c2"
        "client c' = client ?c2"
      by (auto simp: rp)
    have keep: "\<not> isl (decodedOf ext (repo c) r)"
      by (simp add: decodedOf_def t Inr)
    have k: "resourceKeyOf ext address r = ?k"
      by (simp add: resourceKeyOf_def t)
    have d: "projr (decodedOf ext (repo c) r) = v"
      by (simp add: decodedOf_def t Inr)
    have c2: "cachedResources ?c2 = (cachedResources c)(?k \<mapsto> v)"
      by (simp add: addListenerIfGiven_fields upsert_fields)
    have step: "recordResource ext (repo c) address (cachedResources c) r = cachedResources ?c2"
      by (simp only: recordResource_def k d c2)
    have "loadAccountLoop ext address listener (r # rs) keys c
            = (Inr (keys @ map (resourceKeyOf ext address)
                        (filter (\<lambda>r. \<not> isl (decodedOf ext (repo c) r)) (r # rs))), c',
               snd (upsert ?k v c) @ ns)"
      by (simp add: loadAccountLoop_Cons_ok [OF t Inr] loop k keep del: loadAccountLoop.simps)
    moreover have "cachedResources c'
            = foldl (recordResource ext (repo c) address) (cachedResources c)
                (filter (\<lambda>r. \<not> isl (decodedOf ext (repo c) r)) (r # rs))"
      by (simp add: cache keep step)
    moreover have "watchedAddresses c' = watchedAddresses c" "repo c' = repo c"
        "client c' = client c"
      using rest by (simp_all add: addListenerIfGiven_fields upsert_fields)
    ultimately show ?thesis by blast
  qed
qed

lemma decodedOf_Inr_parsed:
  "decodedOf ext rp r = Inr v \<Longrightarrow> \<not> isl (parseTypeTagOrThrow ext (fst r))"
  by (cases "parseTypeTagOrThrow ext (fst r)") (simp_all add: decodedOf_def)

lemma foldl_recordResource_keeps:
  "m k \<noteq> None \<Longrightarrow> foldl (recordResource ext rp address) m rs k \<noteq> None"
  by (induction rs arbitrary: m) (simp_all add: recordResource_def)

lemma foldl_recordResource_dom:
  "r \<in> set rs \<Longrightarrow>
   foldl (recordResource ext rp address) m rs (resourceKeyOf ext address r) \<noteq> None"
proof (induction rs arbitrary: m)
  case Nil
  then show ?case by simp
next
  case (Cons x rs)
  show ?case
  proof (cases "r = x")
    case True
    have "recordResource ext rp address m x (resourceKeyOf ext address x) \<noteq> None"
      by (simp add: recordResource_def)
    from foldl_recordResource_keeps [where m = "recordResource ext rp address m x"
           and k = "resourceKeyOf ext address x" and rs = rs, OF this] True
    show ?thesis by simp
  next
    case False
    with Cons.prems have "r \<in> set rs" by simp
    from Cons.IH [OF this] show ?thesis by simp
  qed
qed

lemma loadAccountLoop_append:
  "loadAccountLoop ext address listener (xs @ ys) keys c
     = (case loadAccountLoop ext address listener xs keys c of
          (Inl e, c1, notes) \<Rightarrow> (Inl e, c1, notes)
        | (Inr keys1, c1, notes) \<Rightarrow>
            (case loadAccountLoop ext address listener ys keys1 c1 of
               (res, c2, notes') \<Rightarrow> (res, c2, notes @ notes')))"
proof (induction xs arbitrary: keys c)
  case Nil
  then show ?case by (simp split: prod.splits)
next
  case (Cons x xs)
  show ?case
  proof (cases "parseTypeTagOrThrow ext (fst x)")
    case (Inl e)
    then show ?thesis by simp
  next
    case (Inr t)
    show ?thesis
    proof (cases "parse ext (repo c) (snd x) t")
      case (Inl e)
      with Inr Cons.IH show ?thesis by simp
    next
      case v: (Inr v)
      show ?thesis
        by (simp add: loadAccountLoop_Cons_ok [OF Inr v] Cons.IH
              split: prod.splits sum.splits del: loadAccountLoop.simps)
    qed
  qed
qed


lemma example_decodedOf:
  "decodedOf exampleExt exampleRepo (''0x1::Coin::Store<u64>'', storeData (JStr ''42''))
     = Inr (storeValue (BigInteger 42) (Atomic U64))"
  "decodedOf exampleExt exampleRepo (''u64'', JStr ''5'') = Inr (BigInteger 5)"
  "decodedOf exampleExt exampleRepo (''0x1::Coin::Store<bool>'', storeData (JStr ''42''))
     = Inl (UnexpectedDataType ''string'')"
  by (simp_all add: decodedOf_def example_defs decode_defs)

lemma example_resourceKeyOf:
  "resourceKeyOf exampleExt (HexString ''0xa'') (''0x1::Coin::Store<u64>'', d) = storeKey"
  "resourceKeyOf exampleExt (HexString ''0xa'') (''u64'', d) = ''0xa/u64''"
  by (simp_all add: resourceKeyOf_def example_defs cache_defs)

text \<open>
  Claim C5. Let the account's resource list have N entries of which exactly one fails to
  decode: its type string parses and decoding its raw data raises, while every other
  entry parses and decodes. Then \<open>loadAccount\<close> does not raise. It returns the resource
  keys of the other N - 1 entries in their order, the cache holds what it held
  overwritten by the decoded values of those entries, so each of their keys is cached,
  and the address is among the watched addresses.
\<close>

theorem loadAccount_skips_undecodable:
  assumes "getAccountResources (client c) address = Inr (pre @ bad # post)"
    and "\<forall>r\<in>set (pre @ post). \<exists>v. decodedOf ext (repo c) r = Inr v"
    and "\<exists>t e. parseTypeTagOrThrow ext (fst bad) = Inr t
               \<and> parse ext (repo c) (snd bad) t = Inl e"
  shows "\<exists>c' ns.
       loadAccount ext address listener c
         = (Inr (map (resourceKeyOf ext address) (pre @ post)), c', ns)
     \<and> length (map (resourceKeyOf ext address) (pre @ post)) = length (pre @ bad # post) - 1
     \<and> cachedResources c'
         = foldl (recordResource ext (repo c) address) (cachedResources c) (pre @ post)
     \<and> (\<forall>r\<in>set (pre @ post). cachedResources c' (resourceKeyOf ext address r) \<noteq> None)
     \<and> address \<in> watchedAddresses c'"
proof -
  from assms(3) obtain t e where
    t: "parseTypeTagOrThrow ext (fst bad) = Inr t" and e: "parse ext (repo c) (snd bad) t = Inl e"
    by blast
  have parsed: "\<forall>r\<in>set (pre @ bad # post). \<not> isl (parseTypeTagOrThrow ext (fst r))"
    using assms(2) t by (auto dest: decodedOf_Inr_parsed)
  have good: "filter (\<lambda>r. \<not> isl (decodedOf ext (repo c) r)) (pre @ bad # post) = pre @ post"
  proof -
    have "isl (decodedOf ext (repo c) bad)"
      by (simp add: decodedOf_def t e)
    moreover have ok: "\<not> isl (decodedOf ext (repo c) r)" if "r \<in> set (pre @ post)" for r
    proof -
      from assms(2) that obtain v where "decodedOf ext (repo c) r = Inr v" by blast
      then show ?thesis by simp
    qed
    then have "filter (\<lambda>r. \<not> isl (decodedOf ext (repo c) r)) pre = pre"
      "filter (\<lambda>r. \<not> isl (decodedOf ext (repo c) r)) post = post"
      by (simp_all add: filter_id_conv)
    ultimately show ?thesis by simp
  qed
  from loadAccountLoop_parsed [OF parsed, of address listener "[]" c]
  have "\<exists>c' ns.
      loadAccountLoop ext address listener (pre @ bad # post) [] c
        = (Inr (map (resourceKeyOf ext address) (pre @ post)), c', ns)
    \<and> cachedResources c'
        = foldl (recordResource ext (repo c) address) (cachedResources c) (pre @ post)
    \<and> watchedAddresses c' = watchedAddresses c
    \<and> repo c' = repo c \<and> client c' = client c"
    by (simp only: good append_Nil)
  then obtain c1 ns where
    loop: "loadAccountLoop ext address listener (pre @ bad # post) [] c
        = (Inr (map (resourceKeyOf ext address) (pre @ post)), c1, ns)"
    and cache: "cachedResources c1
        = foldl (recordResource ext (repo c) address) (cachedResources c) (pre @ post)"
    by blast
  let ?c' = "c1\<lparr>watchedAddresses := insert address (watchedAddresses c1)\<rparr>"
  have "loadAccount ext address listener c
          = (Inr (map (resourceKeyOf ext address) (pre @ post)), ?c', ns)"
    by (simp add: loadAccount_def assms(1) loop)
  moreover have "cachedResources ?c'
          = foldl (recordResource ext (repo c) address) (cachedResources c) (pre @ post)"
    by (simp add: cache)
  moreover have "\<forall>r\<in>set (pre @ post). cachedResources ?c' (resourceKeyOf ext address r) \<noteq> None"
    using foldl_recordResource_dom [of _ "pre @ post" ext "repo c" address "cachedResources c"]
    by (simp add: cache)
  moreover have "address \<in> watchedAddresses ?c'" by simp
  ultimately show ?thesis by (intro exI [of _ ?c'] exI [of _ ns]) simp
qed

theorem loadAccount_skips_undecodable_witness:
  "\<exists>c' ns.
      loadAccount exampleExt (HexString ''0xa'') None exampleCache
        = (Inr [storeKey, ''0xa/u64''], c', ns)
    \<and> cachedResources c' storeKey = Some (storeValue (BigInteger 42) (Atomic U64))
    \<and> cachedResources c' ''0xa/u64'' = Some (BigInteger 5)
    \<and> HexString ''0xa'' \<in> watchedAddresses c'"
proof -
  let ?store = "(''0x1::Coin::Store<u64>'', storeData (JStr ''42''))"
  let ?bad = "(''0x1::Coin::Store<bool>'', storeData (JStr ''42''))"
  let ?u64 = "(''u64'', JStr ''5'')"
  have rp: "repo exampleCache = exampleRepo"
    by (simp add: exampleCache_def)
  have fetch: "getAccountResources (client exampleCache) (HexString ''0xa'')
                 = Inr ([?store] @ ?bad # [?u64])"
    by (simp add: exampleCache_def exampleClient_def)
  have good: "\<forall>r\<in>set ([?store] @ [?u64]). \<exists>v. decodedOf exampleExt (repo exampleCache) r = Inr v"
    by (simp add: rp example_decodedOf)
  have bad: "\<exists>t e. parseTypeTagOrThrow exampleExt (fst ?bad) = Inr t
               \<and> parse exampleExt (repo exampleCache) (snd ?bad) t = Inl e"
    using example_decodedOf(3) by (simp add: rp decodedOf_def exampleExt_def tableParseTypeTag_def)
  from loadAccount_skips_undecodable [OF fetch good bad, where listener = None]
  obtain c' ns where
    a: "loadAccount exampleExt (HexString ''0xa'') None exampleCache
          = (Inr (map (resourceKeyOf exampleExt (HexString ''0xa'')) ([?store] @ [?u64])), c', ns)"
       "cachedResources c'
          = foldl (recordResource exampleExt (repo exampleCache) (HexString ''0xa''))
              (cachedResources exampleCache) ([?store] @ [?u64])"
       "HexString ''0xa'' \<in> watchedAddresses c'"
    by blast
  have ne: "storeKey \<noteq> ''0xa/u64''"
    by (simp add: storeKey_def)
  from a(2) have "cachedResources c' storeKey = Some (storeValue (BigInteger 42) (Atomic U64))"
      "cachedResources c' ''0xa/u64'' = Some (BigInteger 5)"
    using ne by (simp_all add: recordResource_def rp example_decodedOf example_resourceKeyOf)
  with a(1) a(3) show ?thesis
    by (simp add: example_resourceKeyOf)
qed

text \<open>
  Claim C9. Let the account's resource list contain an entry whose type string fails to
  parse, and take the first such entry. Then \<open>loadAccount\<close> raises that parse error to
  its caller. The cache and the notifications are those of the loop over the entries
  before the failing one: the entries after it are not decoded, not cached and not
  returned, whatever they are, and the set of watched addresses is the one before the
  call. Only a failure to decode the raw data, after the type string has parsed, is
  caught: the loop goes on to the next entry with the keys and the cache it had.
\<close>

theorem loadAccount_type_parse_error:
  assumes "getAccountResources (client c) address = Inr (pre @ bad # post)"
    and "\<forall>r\<in>set pre. \<exists>t. parseTypeTagOrThrow ext (fst r) = Inr t"
    and "parseTypeTagOrThrow ext (fst bad) = Inl e"
  shows "(\<exists>keys c1 ns.
           loadAccountLoop ext address listener pre [] c = (Inr keys, c1, ns)
         \<and> loadAccount ext address listener c = (Inl e, c1, ns)
         \<and> cachedResources c1
             = foldl (recordResource ext (repo c) address) (cachedResources c)
                 (filter (\<lambda>r. \<not> isl (decodedOf ext (repo c) r)) pre)
         \<and> watchedAddresses c1 = watchedAddresses c)
       \<and> (\<forall>r t e' rest keys cur.
             parseTypeTagOrThrow ext (fst r) = Inr t \<and> parse ext (repo cur) (snd r) t = Inl e'
             \<longrightarrow> loadAccountLoop ext address listener (r # rest) keys (cur :: 'a AptosResourceCache)
                   = loadAccountLoop ext address listener rest keys cur)"
proof -
  have parsed: "\<forall>r\<in>set pre. \<not> isl (parseTypeTagOrThrow ext (fst r))"
    using assms(2) by auto
  from loadAccountLoop_parsed [OF parsed, of address listener "[]" c]
  obtain c1 ns where
    loop: "loadAccountLoop ext address listener pre [] c
        = (Inr (map (resourceKeyOf ext address)
                  (filter (\<lambda>r. \<not> isl (decodedOf ext (repo c) r)) pre)), c1, ns)"
    and cache: "cachedResources c1
        = foldl (recordResource ext (repo c) address) (cachedResources c)
            (filter (\<lambda>r. \<not> isl (decodedOf ext (repo c) r)) pre)"
    and watched: "watchedAddresses c1 = watchedAddresses c"
    by auto
  have "loadAccountLoop ext address listener (pre @ bad # post) [] c = (Inl e, c1, ns)"
    by (simp add: loadAccountLoop_append loop assms(3) del: loadAccountLoop.simps)
       (simp add: assms(3))
  then have "loadAccount ext address listener c = (Inl e, c1, ns)"
    by (simp add: loadAccount_def assms(1))
  with loop cache watched show ?thesis
    by (auto simp del: loadAccountLoop.simps simp: loadAccountLoop_Cons_skip)
qed


theorem loadAccount_type_parse_error_witness:
  "\<exists>c1 ns.
      loadAccount exampleExt (HexString ''0xa'') None (exampleCache\<lparr>client := unknownTypeClient\<rparr>)
        = (Inl (ParseTypeTagError ''0x1::Unknown''), c1, ns)
    \<and> cachedResources c1 storeKey = Some (storeValue (BigInteger 42) (Atomic U64))
    \<and> cachedResources c1 ''0xa/u64'' = None
    \<and> watchedAddresses c1 = {}
    \<and> loadAccountLoop exampleExt (HexString ''0xa'') None
          [(''0x1::Coin::Store<bool>'', storeData (JStr ''42'')), (''0x1::Unknown'', JNull)] []
          exampleCache
        = loadAccountLoop exampleExt (HexString ''0xa'') None [(''0x1::Unknown'', JNull)] []
            exampleCache"
proof -
  let ?c = "exampleCache\<lparr>client := unknownTypeClient\<rparr>"
  let ?store = "(''0x1::Coin::Store<u64>'', storeData (JStr ''42''))"
  let ?bad = "(''0x1::Unknown'', JNull)"
  let ?u64 = "(''u64'', JStr ''5'')"
  have rp: "repo ?c = exampleRepo"
    by (simp add: exampleCache_def)
  have fetch: "getAccountResources (client ?c) (HexString ''0xa'') = Inr ([?store] @ ?bad # [?u64])"
    by (simp add: unknownTypeClient_def)
  have pre: "\<forall>r\<in>set [?store]. \<exists>t. parseTypeTagOrThrow exampleExt (fst r) = Inr t"
    by (simp add: exampleExt_def tableParseTypeTag_def)
  have bad: "parseTypeTagOrThrow exampleExt (fst ?bad) = Inl (ParseTypeTagError ''0x1::Unknown'')"
    by (simp add: exampleExt_def tableParseTypeTag_def)
  note inst = loadAccount_type_parse_error [OF fetch pre bad, where listener = None]
  from inst obtain c1 ns where
    a: "loadAccount exampleExt (HexString ''0xa'') None ?c
          = (Inl (ParseTypeTagError ''0x1::Unknown''), c1, ns)"
       "cachedResources c1
          = foldl (recordResource exampleExt (repo ?c) (HexString ''0xa'')) (cachedResources ?c)
              (filter (\<lambda>r. \<not> isl (decodedOf exampleExt (repo ?c) r)) [?store])"
       "watchedAddresses c1 = watchedAddresses ?c"
    by blast
  have ne: "storeKey \<noteq> ''0xa/u64''"
    by (simp add: storeKey_def)
  from a(2) have cached: "cachedResources c1 storeKey = Some (storeValue (BigInteger 42) (Atomic U64))"
      "cachedResources c1 ''0xa/u64'' = None"
    using ne
    by (simp_all add: recordResource_def rp example_decodedOf example_resourceKeyOf)
       (simp add: exampleCache_def storeKey_def)
  from a(3) have watched: "watchedAddresses c1 = {}"
    by (simp add: exampleCache_def)
  have skip: "parseTypeTagOrThrow exampleExt
        (fst (''0x1::Coin::Store<bool>'', storeData (JStr ''42''))) = Inr (CoinStoreOf (Atomic Bool))
      \<and> parse exampleExt (repo exampleCache)
        (snd (''0x1::Coin::Store<bool>'', storeData (JStr ''42''))) (CoinStoreOf (Atomic Bool))
        = Inl (UnexpectedDataType ''string'')"
    using example_decodedOf(3)
    by (simp add: decodedOf_def exampleExt_def tableParseTypeTag_def exampleCache_def)
  from inst [THEN conjunct2, rule_format,
          where r = "(''0x1::Coin::Store<bool>'', storeData (JStr ''42''))"
            and cur = exampleCache and rest = "[(''0x1::Unknown'', JNull)]" and keys = "[]", OF skip]
  have "loadAccountLoop exampleExt (HexString ''0xa'') None
          [(''0x1::Coin::Store<bool>'', storeData (JStr ''42'')), (''0x1::Unknown'', JNull)] []
          exampleCache
        = loadAccountLoop exampleExt (HexString ''0xa'') None [(''0x1::Unknown'', JNull)] []
            exampleCache" .
  with cached watched a(1) show ?thesis
    by blast
qed


section \<open>delete_resource changes\<close>

lemma applyChange_keeps:
  "applyChange ext change c = (r, c', ns) \<Longrightarrow>
     updateListener c' = updateListener c \<and> repo c' = repo c
   \<and> (cachedResources c k = None \<longrightarrow> cachedResources c' k = None)"
  by (cases change)
     (auto simp: Let_def updateResource_def deleteResource_def split: sum.splits if_splits)

lemma applyChanges_keeps:
  "applyChanges ext chs c = (r, c', ns) \<Longrightarrow>
     updateListener c' = updateListener c \<and> repo c' = repo c
   \<and> (cachedResources c k = None \<longrightarrow> cachedResources c' k = None)"
proof (induction chs arbitrary: c r c' ns)
  case Nil
  then show ?case by simp
next
  case (Cons ch chs)
  obtain r1 c1 ns1 where step: "applyChange ext ch c = (r1, c1, ns1)"
    by (cases "applyChange ext ch c") auto
  note k1 = applyChange_keeps [OF step, of k]
  show ?case
  proof (cases r1)
    case (Inl e)
    with Cons.prems step k1 show ?thesis by auto
  next
    case (Inr u)
    obtain r2 c2 ns2 where rest: "applyChanges ext chs c1 = (r2, c2, ns2)"
      by (cases "applyChanges ext chs c1") auto
    with Cons.prems step Inr have "c' = c2" by simp
    with Cons.IH [OF rest] k1 show ?thesis by auto
  qed
qed

lemma applyChanges_append:
  "applyChanges ext (xs @ ys) c
     = (case applyChanges ext xs c of
          (Inl e, c1, ns) \<Rightarrow> (Inl e, c1, ns)
        | (Inr u, c1, ns) \<Rightarrow>
            (case applyChanges ext ys c1 of (r, c2, ns') \<Rightarrow> (r, c2, ns @ ns')))"
  by (induction xs arbitrary: c) (auto split: prod.splits sum.splits)

text \<open>
  Claim C4, for the transactions that reach the change. Let the transaction have
  \<open>success\<close> true and a hash other than \<open>0x0\<close>, let its change-set contain a
  \<open>delete_resource\<close> change whose type string parses, and let the changes before it be
  applied without an error. If the key of the change is cached when the change is reached,
  \<open>updateFromTransactionResult\<close> removes the key -- it is absent from the cache the call
  leaves, whatever the later changes do -- and at that change calls the callback of each
  listener registered for the key exactly once, in order, with \<open>delete\<close> and \<open>null\<close>: the
  calls of the whole transaction are those of the changes before, then these, then those
  that the changes after it make on the cache without the key. If
  the key is not cached, the change calls no callback and changes nothing: the call does
  what it does for the change-set without that change.
\<close>

theorem delete_resource_change:
  assumes "success txn" and "hash txn \<noteq> ''0x0''"
    and "changes txn = pre @ delete_resource address resource # post"
    and "parseTypeTagOrThrow ext resource = Inr t"
    and "resourceKey = getResourceKey (new_HexString address) t"
    and "applyChanges ext pre c = (Inr (), c1, ns1)"
  shows "(cachedResources c1 resourceKey \<noteq> None \<longrightarrow>
            updateFromTransactionResult ext txn c
              = (case applyChanges ext post
                        (c1\<lparr>cachedResources := (cachedResources c1)(resourceKey := None)\<rparr>) of
                   (r, c2, ns2) \<Rightarrow>
                     (r, c2, ns1 @ map (\<lambda>l. (callback l, delete, None)) (listenersOf c resourceKey)
                                 @ ns2))
          \<and> cachedResources (fst (snd (updateFromTransactionResult ext txn c))) resourceKey = None)
       \<and> (cachedResources c1 resourceKey = None \<longrightarrow>
            updateFromTransactionResult ext txn c
              = updateFromTransactionResult ext (txn\<lparr>changes := pre @ post\<rparr>) c)"
proof (intro conjI impI)
  let ?c' = "c1\<lparr>cachedResources := (cachedResources c1)(resourceKey := None)\<rparr>"
  obtain r c2 ns2 where rest: "applyChanges ext post ?c' = (r, c2, ns2)"
    by (cases "applyChanges ext post ?c'") auto
  have "updateListener c1 = updateListener c"
    using applyChanges_keeps [OF assms(6)] by simp
  then have ls: "listenersOf c1 resourceKey = listenersOf c resourceKey"
    by (simp add: listenersOf_def)
  {
    assume cached: "cachedResources c1 resourceKey \<noteq> None"
    have "applyChanges ext (delete_resource address resource # post) c1
            = (r, c2, map (\<lambda>l. (callback l, delete, None)) (listenersOf c resourceKey) @ ns2)"
      using cached rest assms(4) assms(5) [symmetric]
      by (simp add: deleteResource_def notify_listenersOf ls)
    then have "updateFromTransactionResult ext txn c
            = (r, c2, ns1 @ map (\<lambda>l. (callback l, delete, None)) (listenersOf c resourceKey)
                        @ ns2)"
      using assms(1,2,3,6)
      by (simp add: updateFromTransactionResult_def applyChanges_append del: applyChanges.simps)
  }
  note whole = this
  {
    assume cached: "cachedResources c1 resourceKey \<noteq> None"
    from whole [OF cached] rest
    show "updateFromTransactionResult ext txn c
              = (case applyChanges ext post ?c' of
                   (r, c2, ns2) \<Rightarrow>
                     (r, c2, ns1 @ map (\<lambda>l. (callback l, delete, None)) (listenersOf c resourceKey)
                                 @ ns2))"
      by simp
  }
  {
    assume cached: "cachedResources c1 resourceKey \<noteq> None"
    have "cachedResources c2 resourceKey = None"
      using applyChanges_keeps [OF rest, of resourceKey] by simp
    with whole [OF cached]
    show "cachedResources (fst (snd (updateFromTransactionResult ext txn c))) resourceKey = None"
      by simp
  }
  {
    assume absent: "cachedResources c1 resourceKey = None"
    have "applyChanges ext (delete_resource address resource # post) c1 = applyChanges ext post c1"
      using absent assms(4) assms(5) [symmetric]
      by (simp split: prod.splits)
    then show "updateFromTransactionResult ext txn c
            = updateFromTransactionResult ext (txn\<lparr>changes := pre @ post\<rparr>) c"
      using assms(1,2,3,6)
      by (simp add: updateFromTransactionResult_def applyChanges_append del: applyChanges.simps)
  }
qed

theorem delete_resource_change_witness:
  "updateFromTransactionResult exampleExt (deleteStoreTxn True ''0xabc'') exampleCache
     = (Inr (), exampleCache\<lparr>cachedResources := (cachedResources exampleCache)(storeKey := None)\<rparr>,
        [(''onStore'', delete, None)])
   \<and> updateFromTransactionResult exampleExt
         \<lparr>success = True, hash = ''0xabc'',
          changes = [delete_resource ''0xa'' ''0x1::Coin::Store<bool>'']\<rparr> exampleCache
       = (Inr (), exampleCache, [])"
proof -
  let ?other = "\<lparr>success = True, hash = ''0xabc'',
                 changes = [delete_resource ''0xa'' ''0x1::Coin::Store<bool>'']\<rparr>"
  have guard: "success (deleteStoreTxn True ''0xabc'')" "hash (deleteStoreTxn True ''0xabc'') \<noteq> ''0x0''"
      "success ?other" "hash ?other \<noteq> ''0x0''"
    by (simp_all add: deleteStoreTxn_def)
  have ch: "changes (deleteStoreTxn True ''0xabc'')
              = [] @ delete_resource ''0xa'' ''0x1::Coin::Store<u64>'' # []"
      "changes ?other = [] @ delete_resource ''0xa'' ''0x1::Coin::Store<bool>'' # []"
    by (simp_all add: deleteStoreTxn_def)
  have ty: "parseTypeTagOrThrow exampleExt ''0x1::Coin::Store<u64>'' = Inr (CoinStoreOf (Atomic U64))"
      "parseTypeTagOrThrow exampleExt ''0x1::Coin::Store<bool>'' = Inr (CoinStoreOf (Atomic Bool))"
    by (simp_all add: exampleExt_def tableParseTypeTag_def)
  have key: "storeKey = getResourceKey (new_HexString ''0xa'') (CoinStoreOf (Atomic U64))"
      "''0xa/0x1::Coin::Store<bool>''
         = getResourceKey (new_HexString ''0xa'') (CoinStoreOf (Atomic Bool))"
    by (simp_all add: example_defs cache_defs)
  have pre: "applyChanges exampleExt [] exampleCache = (Inr (), exampleCache, [])"
    by simp
  have cached: "cachedResources exampleCache storeKey \<noteq> None"
      "cachedResources exampleCache ''0xa/0x1::Coin::Store<bool>'' = None"
    by (simp_all add: exampleCache_def storeKey_def)
  have ls: "listenersOf exampleCache storeKey = [\<lparr>listener_id = ''ui'', callback = ''onStore''\<rparr>]"
    by (simp add: listenersOf_def exampleCache_def)
  have first: "updateFromTransactionResult exampleExt (deleteStoreTxn True ''0xabc'') exampleCache
     = (Inr (), exampleCache\<lparr>cachedResources := (cachedResources exampleCache)(storeKey := None)\<rparr>,
        [(''onStore'', delete, None)])"
    using delete_resource_change [OF guard(1,2) ch(1) ty(1) key(1) pre] cached(1)
    by (simp add: ls)
  have "updateFromTransactionResult exampleExt ?other exampleCache
          = updateFromTransactionResult exampleExt (?other\<lparr>changes := [] @ []\<rparr>) exampleCache"
    using delete_resource_change [OF guard(3,4) ch(2) ty(2) key(2) pre] cached(2)
    by blast
  then have "updateFromTransactionResult exampleExt ?other exampleCache
          = (Inr (), exampleCache, [])"
    by (simp add: updateFromTransactionResult_def)
  with first show ?thesis by blast
qed

text \<open>
  Claim C4 does not hold for every successful transaction. A transaction with \<open>success\<close>
  true and the hash \<open>0x0\<close> is stopped by the guard: the cached key of its
  \<open>delete_resource\<close> change stays cached and its listener is not called. And when an
  earlier change raises -- here a \<open>write_resource\<close> for a cached resource whose struct has
  no parser in the registry -- the error ends the call before the \<open>delete_resource\<close>
  change is reached: the key stays cached and its listener is not called.
\<close>

theorem delete_resource_every_txn_counterexample:
  "success (deleteStoreTxn True ''0x0'')
   \<and> changes (deleteStoreTxn True ''0x0'') = [delete_resource ''0xa'' ''0x1::Coin::Store<u64>'']
   \<and> parseTypeTagOrThrow exampleExt ''0x1::Coin::Store<u64>'' = Inr (CoinStoreOf (Atomic U64))
   \<and> getResourceKey (new_HexString ''0xa'') (CoinStoreOf (Atomic U64)) = storeKey
   \<and> cachedResources exampleCache storeKey \<noteq> None
   \<and> listenersOf exampleCache storeKey \<noteq> []
   \<and> updateFromTransactionResult exampleExt (deleteStoreTxn True ''0x0'') exampleCache
       = (Inr (), exampleCache, [])
   \<and> success writeThenDeleteTxn \<and> hash writeThenDeleteTxn \<noteq> ''0x0''
   \<and> delete_resource ''0xa'' ''0x1::Coin::Store<bool>'' \<in> set (changes writeThenDeleteTxn)
   \<and> parseTypeTagOrThrow exampleExt ''0x1::Coin::Store<bool>'' = Inr (CoinStoreOf (Atomic Bool))
   \<and> getResourceKey (new_HexString ''0xa'') (CoinStoreOf (Atomic Bool)) = boolStoreKey
   \<and> cachedResources twoStoreCache boolStoreKey \<noteq> None
   \<and> listenersOf twoStoreCache boolStoreKey \<noteq> []
   \<and> updateFromTransactionResult exampleExt writeThenDeleteTxn twoStoreCache
       = (Inl (NoParserRegistered ''0x1::Coin::Store''), twoStoreCache, [])"
  by (simp add: updateFromTransactionResult_def example_defs cache_defs listenersOf_def
        writeThenDeleteTxn_def twoStoreCache_def boolStoreKey_def defaultRepo_def decode_defs
        Let_def)



end
